theory Spec2Isabelle
  imports Main "HOL-Library.Word"
begin

text \<open>
  A shallow embedding of package \<open>config\<close> of the repository: the decode hook
  (\<open>hooks.go\<close>) and the configuration manager (\<open>config.go\<close>, in the version that
  registers flags of nine kinds, sets the environment prefix and key replacer, reads a
  configuration file and installs the decode hook). The libraries the package calls
  (\<open>reflect\<close>, \<open>strings\<close>, \<open>pflag\<close>, \<open>viper\<close>, \<open>mapstructure\<close>) are not part of the
  repository; what the package uses of them is modelled where it is used, or taken as a
  parameter.
\<close>

section \<open>Go values, types and failures\<close>

text \<open>
  A Go function of package \<open>config\<close> ends in one of three ways: it returns normally,
  it returns a non-nil \<open>error\<close> value, or it panics. A returned error and a panic
  are the two constructors of \<open>failure\<close>; a function that can fail returns
  \<open>failure + 'a\<close>, and one that only ever returns an \<open>error\<close> value returns
  \<open>failure option\<close> (\<open>None\<close> is \<open>nil\<close>). Both carry the message text.
\<close>

datatype failure = Error string | Panic string

text \<open>
  \<open>reflect.Kind\<close>, in the order of the Go enumeration. \<open>Int'\<close> is the kind \<open>Int\<close>
  (the plain name is the ASCII notation of set intersection).
\<close>

datatype Kind =
    Invalid | Bool | Int' | Int8 | Int16 | Int32 | Int64
  | Uint | Uint8 | Uint16 | Uint32 | Uint64 | Uintptr
  | Float32 | Float64 | Complex64 | Complex128
  | Array | Chan | Func | Interface | Map | Pointer | Slice | String | Struct
  | UnsafePointer

text \<open>
  \<open>reflect.Type\<close>: what the manager reads of a type is its kind, its element type and,
  for a struct, its fields with their tags (\<open>Kind_of\<close> is the method \<open>Type.Kind\<close>). A struct tag is kept as the list of its
  \<open>key:"value"\<close> pairs in the order written. \<open>Named\<close> is a defined type
  (\<open>type Labels map[string]string\<close>), which has the kind, element and fields of its
  underlying type.
\<close>

datatype Type =
    BoolT | IntT | Int8T | Int16T | Int32T | Int64T
  | UintT | Uint8T | Uint16T | Uint32T | Uint64T | UintptrT
  | Float32T | Float64T | Complex64T | Complex128T
  | StringT | UnsafePointerT | FuncT | InterfaceT
  | ArrayT nat Type | ChanT Type | MapT Type Type | PointerT Type | SliceT Type
  | StructT "StructField list"
  | Named string Type
and StructField = StructField string "(string \<times> string) list" Type

fun Kind_of :: "Type \<Rightarrow> Kind" where
  "Kind_of BoolT = Bool"
| "Kind_of IntT = Int'"
| "Kind_of Int8T = Int8"
| "Kind_of Int16T = Int16"
| "Kind_of Int32T = Int32"
| "Kind_of Int64T = Int64"
| "Kind_of UintT = Uint"
| "Kind_of Uint8T = Uint8"
| "Kind_of Uint16T = Uint16"
| "Kind_of Uint32T = Uint32"
| "Kind_of Uint64T = Uint64"
| "Kind_of UintptrT = Uintptr"
| "Kind_of Float32T = Float32"
| "Kind_of Float64T = Float64"
| "Kind_of Complex64T = Complex64"
| "Kind_of Complex128T = Complex128"
| "Kind_of StringT = String"
| "Kind_of UnsafePointerT = UnsafePointer"
| "Kind_of FuncT = Func"
| "Kind_of InterfaceT = Interface"
| "Kind_of (ArrayT n e) = Array"
| "Kind_of (ChanT e) = Chan"
| "Kind_of (MapT k e) = Map"
| "Kind_of (PointerT e) = Pointer"
| "Kind_of (SliceT e) = Slice"
| "Kind_of (StructT fields) = Struct"
| "Kind_of (Named n u) = Kind_of u"

text \<open>
  \<open>Type.Elem\<close> panics unless the kind is Array, Chan, Map, Pointer or Slice.
\<close>

fun Elem :: "Type \<Rightarrow> failure + Type" where
  "Elem (ArrayT n e) = Inr e"
| "Elem (ChanT e) = Inr e"
| "Elem (MapT k e) = Inr e"
| "Elem (PointerT e) = Inr e"
| "Elem (SliceT e) = Inr e"
| "Elem (Named n u) = Elem u"
| "Elem t = Inl (Panic ''reflect: Elem of invalid type'')"

text \<open>
  The dynamic values an \<open>interface{}\<close> holds in the settings: \<open>VStringSlice\<close> is a value
  of dynamic type exactly \<open>[]string\<close>, \<open>VStringMap\<close> one of type
  \<open>map[string]string\<close>.
\<close>

datatype Value =
    VNil
  | VBool bool
  | VInt int
  | VString string
  | VStringSlice "string list"
  | VStringMap "string \<rightharpoonup> string"
  | VSlice "Value list"

section \<open>The decode hook (hooks.go)\<close>

text \<open>
  \<open>strings.Index\<close> and \<open>strings.SplitN\<close> of the Go standard library, for a separator
  of one byte: \<open>SplitN s sep n\<close> cuts \<open>s\<close> at the first \<open>n - 1\<close> occurrences of
  the separator and keeps the rest whole, so it returns at most \<open>n\<close> pieces.
\<close>

fun Index :: "string \<Rightarrow> char \<Rightarrow> nat option" where
  "Index [] sep = None"
| "Index (c # cs) sep = (if c = sep then Some 0 else map_option Suc (Index cs sep))"

fun SplitN :: "string \<Rightarrow> char \<Rightarrow> nat \<Rightarrow> string list" where
  "SplitN s sep 0 = []"
| "SplitN s sep (Suc 0) = [s]"
| "SplitN s sep (Suc (Suc n)) =
     (case Index s sep of
        None \<Rightarrow> [s]
      | Some m \<Rightarrow> take m s # SplitN (drop (m + 1) s) sep (Suc n))"

text \<open>
  The loop of the hook over the slice: \<open>m\<close> is the map built so far.
\<close>

fun hook_loop :: "string list \<Rightarrow> (string \<rightharpoonup> string) \<Rightarrow> failure + (string \<rightharpoonup> string)" where
  "hook_loop [] m = Inr m"
| "hook_loop (s # sl) m =
     (let p = SplitN s (CHR ''='') 2 in
      if length p \<noteq> 2 then Inl (Error (''Invalid format for input '' @ s))
      else hook_loop sl (m(p ! 0 \<mapsto> p ! 1)))"

text \<open>
  \<open>stringSliceToStringMapHookFunc f t data\<close>. The four tests of the guard are evaluated
  left to right and stop at the first that holds, so \<open>Elem\<close> is only asked of a slice
  and of a map. The type assertion \<open>data.([]string)\<close> panics on a value of any other
  dynamic type.
\<close>

definition stringSliceToStringMapHookFunc :: "Type \<Rightarrow> Type \<Rightarrow> Value \<Rightarrow> failure + Value" where
  "stringSliceToStringMapHookFunc f t data =
     (if Kind_of f \<noteq> Slice then Inr data
      else (case Elem f of
        Inl e \<Rightarrow> Inl e
      | Inr fe \<Rightarrow>
         (if Kind_of fe \<noteq> String then Inr data
          else if Kind_of t \<noteq> Map then Inr data
          else (case Elem t of
            Inl e \<Rightarrow> Inl e
          | Inr te \<Rightarrow>
             (if Kind_of te \<noteq> String then Inr data
              else (case data of
                VStringSlice sl \<Rightarrow>
                  (case hook_loop sl Map.empty of
                     Inl e \<Rightarrow> Inl e
                   | Inr m \<Rightarrow> Inr (VStringMap m))
              | _ \<Rightarrow> Inl (Panic ''interface conversion: interface {} is not []string'')))))))"

text \<open>
  The guard of the hook as one predicate: the source has kind Slice with an element of
  kind String, and the target has kind Map with an element (value type) of kind String.
\<close>

definition slice_of_strings :: "Type \<Rightarrow> bool" where
  "slice_of_strings f = (Kind_of f = Slice \<and> (case Elem f of Inr fe \<Rightarrow> Kind_of fe = String | Inl e \<Rightarrow> False))"

definition map_to_strings :: "Type \<Rightarrow> bool" where
  "map_to_strings t = (Kind_of t = Map \<and> (case Elem t of Inr te \<Rightarrow> Kind_of te = String | Inl e \<Rightarrow> False))"

text \<open>
  What the specification says of the hook, for comparison with the loop: an element is
  cut at its first \<open>=\<close> into a key and a value, and the value of a key is the one of
  the last element with that key.
\<close>

definition spec_key :: "string \<Rightarrow> string" where
  "spec_key s = takeWhile (\<lambda>c. c \<noteq> CHR ''='') s"

definition spec_value :: "string \<Rightarrow> string" where
  "spec_value s = drop 1 (dropWhile (\<lambda>c. c \<noteq> CHR ''='') s)"

definition spec_last_write_wins :: "string list \<Rightarrow> (string \<rightharpoonup> string)" where
  "spec_last_write_wins sl =
     (\<lambda>k. case filter (\<lambda>s. spec_key s = k) sl of
             [] \<Rightarrow> None
           | x # xs \<Rightarrow> Some (spec_value (last (x # xs))))"

section \<open>The flag set\<close>

text \<open>
  A flag as the manager defines it through \<open>pflag\<close>: its name, its one-letter
  shorthand, its value (the default, until a command line is parsed) and its usage
  text. The integer values are those of a 64-bit platform; a \<open>float64\<close> is kept as its
  IEEE 754 bit pattern, so \<open>0\<close> is the number zero.
\<close>

datatype FlagValue =
    StringValue string
  | BoolValue bool
  | UintValue "64 word"
  | Uint64Value "64 word"
  | IntValue "64 word"
  | Int64Value "64 word"
  | Float64Value "64 word"
  | StringSliceValue "string list"

record Flag =
  Name :: string
  Shorthand :: string
  Value :: FlagValue
  Usage :: string

text \<open>
  A \<open>pflag.FlagSet\<close> is the list of its flags in the order of their definition.
  \<open>pflag\<close> is a library outside this repository. Every function that defines a flag
  ends in \<open>FlagSet.AddFlag\<close>, which panics when the name is already defined in the set,
  when the shorthand has more than one character, and when the shorthand is already the
  shorthand of a flag of the set, in this order; a flag with the empty shorthand takes no
  shorthand. The panic values are shortened: the messages of \<open>pflag\<close> also carry the
  name of the flag set, quote the shorthand and name the flag that holds it.
\<close>

type_synonym FlagSet = "Flag list"

definition AddFlag :: "FlagSet \<Rightarrow> Flag \<Rightarrow> failure + FlagSet" where
  "AddFlag fs flag =
     (if Name flag \<in> set (map Name fs) then Inl (Panic (''flag redefined: '' @ Name flag))
      else if Shorthand flag = '''' then Inr (fs @ [flag])
      else if length (Shorthand flag) > 1
        then Inl (Panic (Shorthand flag @ '' shorthand is more than one ASCII character''))
      else if Shorthand flag \<in> set (map Shorthand fs)
        then Inl (Panic (''unable to redefine shorthand '' @ Shorthand flag))
      else Inr (fs @ [flag]))"

definition StringP :: "FlagSet \<Rightarrow> string \<Rightarrow> string \<Rightarrow> string \<Rightarrow> string \<Rightarrow> failure + FlagSet" where
  "StringP fs name shorthand val usage =
     AddFlag fs \<lparr>Name = name, Shorthand = shorthand, Value = StringValue val, Usage = usage\<rparr>"

definition BoolP :: "FlagSet \<Rightarrow> string \<Rightarrow> string \<Rightarrow> bool \<Rightarrow> string \<Rightarrow> failure + FlagSet" where
  "BoolP fs name shorthand val usage =
     AddFlag fs \<lparr>Name = name, Shorthand = shorthand, Value = BoolValue val, Usage = usage\<rparr>"

definition UintP :: "FlagSet \<Rightarrow> string \<Rightarrow> string \<Rightarrow> 64 word \<Rightarrow> string \<Rightarrow> failure + FlagSet" where
  "UintP fs name shorthand val usage =
     AddFlag fs \<lparr>Name = name, Shorthand = shorthand, Value = UintValue val, Usage = usage\<rparr>"

definition Uint64P :: "FlagSet \<Rightarrow> string \<Rightarrow> string \<Rightarrow> 64 word \<Rightarrow> string \<Rightarrow> failure + FlagSet" where
  "Uint64P fs name shorthand val usage =
     AddFlag fs \<lparr>Name = name, Shorthand = shorthand, Value = Uint64Value val, Usage = usage\<rparr>"

definition IntP :: "FlagSet \<Rightarrow> string \<Rightarrow> string \<Rightarrow> 64 word \<Rightarrow> string \<Rightarrow> failure + FlagSet" where
  "IntP fs name shorthand val usage =
     AddFlag fs \<lparr>Name = name, Shorthand = shorthand, Value = IntValue val, Usage = usage\<rparr>"

definition Int64P :: "FlagSet \<Rightarrow> string \<Rightarrow> string \<Rightarrow> 64 word \<Rightarrow> string \<Rightarrow> failure + FlagSet" where
  "Int64P fs name shorthand val usage =
     AddFlag fs \<lparr>Name = name, Shorthand = shorthand, Value = Int64Value val, Usage = usage\<rparr>"

definition Float64P :: "FlagSet \<Rightarrow> string \<Rightarrow> string \<Rightarrow> 64 word \<Rightarrow> string \<Rightarrow> failure + FlagSet" where
  "Float64P fs name shorthand val usage =
     AddFlag fs \<lparr>Name = name, Shorthand = shorthand, Value = Float64Value val, Usage = usage\<rparr>"

definition StringSliceP :: "FlagSet \<Rightarrow> string \<Rightarrow> string \<Rightarrow> string list \<Rightarrow> string \<Rightarrow> failure + FlagSet" where
  "StringSliceP fs name shorthand val usage =
     AddFlag fs \<lparr>Name = name, Shorthand = shorthand, Value = StringSliceValue val, Usage = usage\<rparr>"

text \<open>
  \<open>AddFlag\<close> for a list of flags, one after the other, up to the first that \<open>pflag\<close>
  refuses.
\<close>

fun AddFlags :: "FlagSet \<Rightarrow> Flag list \<Rightarrow> failure + FlagSet" where
  "AddFlags fs [] = Inr fs"
| "AddFlags fs (flag # rest) =
     (case AddFlag fs flag of
        Inl p \<Rightarrow> Inl p
      | Inr fs' \<Rightarrow> AddFlags fs' rest)"

text \<open>
  \<open>FlagSet.GetString\<close>: the value of a string flag and a nil error, or the empty string
  and an error when the flag is not defined or is not a string flag.
\<close>

definition GetString :: "FlagSet \<Rightarrow> string \<Rightarrow> string \<times> failure option" where
  "GetString fs name =
     (case find (\<lambda>f. Name f = name) fs of
        None \<Rightarrow> ('''', Some (Error (''flag accessed but not defined: '' @ name)))
      | Some f \<Rightarrow>
          (case Value f of
             StringValue s \<Rightarrow> (s, None)
           | _ \<Rightarrow> ('''', Some (Error ''trying to get string value of flag of another type''))))"

section \<open>Registration: the walk over the struct (config.go)\<close>

text \<open>\<open>StructTag.Get\<close>: the value of the first pair with the key, or the empty string.\<close>

definition Get :: "(string \<times> string) list \<Rightarrow> string \<Rightarrow> string" where
  "Get tag key = (case map_of tag key of Some v \<Rightarrow> v | None \<Rightarrow> '''')"

text \<open>\<open>Kind.String\<close>, which \<open>%v\<close> prints.\<close>

fun Kind_String :: "Kind \<Rightarrow> string" where
  "Kind_String Invalid = ''invalid''"
| "Kind_String Bool = ''bool''"
| "Kind_String Int' = ''int''"
| "Kind_String Int8 = ''int8''"
| "Kind_String Int16 = ''int16''"
| "Kind_String Int32 = ''int32''"
| "Kind_String Int64 = ''int64''"
| "Kind_String Uint = ''uint''"
| "Kind_String Uint8 = ''uint8''"
| "Kind_String Uint16 = ''uint16''"
| "Kind_String Uint32 = ''uint32''"
| "Kind_String Uint64 = ''uint64''"
| "Kind_String Uintptr = ''uintptr''"
| "Kind_String Float32 = ''float32''"
| "Kind_String Float64 = ''float64''"
| "Kind_String Complex64 = ''complex64''"
| "Kind_String Complex128 = ''complex128''"
| "Kind_String Array = ''array''"
| "Kind_String Chan = ''chan''"
| "Kind_String Func = ''func''"
| "Kind_String Interface = ''interface''"
| "Kind_String Map = ''map''"
| "Kind_String Pointer = ''ptr''"
| "Kind_String Slice = ''slice''"
| "Kind_String String = ''string''"
| "Kind_String Struct = ''struct''"
| "Kind_String UnsafePointer = ''unsafe.Pointer''"

text \<open>
  \<open>parseStructToFlags prefix strT\<close> on the flag set \<open>flags\<close> of the manager.
  \<open>parseFields\<close> is its loop over the fields \<open>strT.Field(i)\<close>, from the first to the
  last; \<open>NumField\<close> panics on a type that is not a struct. The result is the flag set
  after the walk, or the panic that ended it: that of the \<open>default\<close> case of the
  switch, or one of \<open>pflag\<close> when it refuses a flag.
\<close>

fun parseStructToFlags :: "string \<Rightarrow> Type \<Rightarrow> FlagSet \<Rightarrow> failure + FlagSet"
and parseFields :: "string \<Rightarrow> StructField list \<Rightarrow> FlagSet \<Rightarrow> failure + FlagSet" where
  "parseStructToFlags prefix (StructT flds) flags = parseFields prefix flds flags"
| "parseStructToFlags prefix (Named n u) flags = parseStructToFlags prefix u flags"
| "parseStructToFlags prefix _ flags = Inl (Panic ''reflect: NumField of non-struct type'')"
| "parseFields prefix [] flags = Inr flags"
| "parseFields prefix (StructField fname tag ftype # rest) flags =
     (let name = Get tag ''name'';
          kind = Kind_of ftype
      in if (name = '''' \<or> name = ''-'') \<and> kind \<noteq> Struct then parseFields prefix rest flags
         else
           let desc = Get tag ''description'';
               short = Get tag ''short'';
               name = (if prefix \<noteq> '''' then prefix @ ''.'' @ name else name)
           in (case kind of
                 String \<Rightarrow>
                   (case StringP flags name short '''' desc of
                      Inl p \<Rightarrow> Inl p | Inr flags' \<Rightarrow> parseFields prefix rest flags')
               | Bool \<Rightarrow>
                   (case BoolP flags name short False desc of
                      Inl p \<Rightarrow> Inl p | Inr flags' \<Rightarrow> parseFields prefix rest flags')
               | Uint \<Rightarrow>
                   (case UintP flags name short 0 desc of
                      Inl p \<Rightarrow> Inl p | Inr flags' \<Rightarrow> parseFields prefix rest flags')
               | Uint64 \<Rightarrow>
                   (case Uint64P flags name short 0 desc of
                      Inl p \<Rightarrow> Inl p | Inr flags' \<Rightarrow> parseFields prefix rest flags')
               | Int' \<Rightarrow>
                   (case IntP flags name short 0 desc of
                      Inl p \<Rightarrow> Inl p | Inr flags' \<Rightarrow> parseFields prefix rest flags')
               | Int64 \<Rightarrow>
                   (case Int64P flags name short 0 desc of
                      Inl p \<Rightarrow> Inl p | Inr flags' \<Rightarrow> parseFields prefix rest flags')
               | Float64 \<Rightarrow>
                   (case Float64P flags name short 0 desc of
                      Inl p \<Rightarrow> Inl p | Inr flags' \<Rightarrow> parseFields prefix rest flags')
               | Slice \<Rightarrow>
                   (case StringSliceP flags name short [] desc of
                      Inl p \<Rightarrow> Inl p | Inr flags' \<Rightarrow> parseFields prefix rest flags')
               | Struct \<Rightarrow>
                   (case parseStructToFlags name ftype flags of
                      Inl p \<Rightarrow> Inl p
                    | Inr flags' \<Rightarrow> parseFields prefix rest flags')
               | Map \<Rightarrow>
                   (case StringSliceP flags name short [] desc of
                      Inl p \<Rightarrow> Inl p | Inr flags' \<Rightarrow> parseFields prefix rest flags')
               | _ \<Rightarrow> Inl (Panic (''Unknown type in config: '' @ Kind_String kind))))"

text \<open>
  What the specification says of registration, for comparison with the walk. The
  documented default of each supported kind (\<open>None\<close> for a kind that is not supported):
  the empty string, false, zero, or the empty sequence.
\<close>

fun spec_default :: "Kind \<Rightarrow> FlagValue option" where
  "spec_default String = Some (StringValue '''')"
| "spec_default Bool = Some (BoolValue False)"
| "spec_default Int' = Some (IntValue 0)"
| "spec_default Int64 = Some (Int64Value 0)"
| "spec_default Uint = Some (UintValue 0)"
| "spec_default Uint64 = Some (Uint64Value 0)"
| "spec_default Float64 = Some (Float64Value 0)"
| "spec_default Slice = Some (StringSliceValue [])"
| "spec_default Map = Some (StringSliceValue [])"
| "spec_default _ = None"

text \<open>
  The effective name of a field under the prefix \<open>q\<close>, in the words of the specification
  (4.1): a name tag that is present and not \<open>-\<close> is prefixed with \<open>q\<close> and a dot when
  \<open>q\<close> is not empty; otherwise the name is derived purely from the recursion context,
  which is \<open>q\<close>.
\<close>

definition spec_effective_name :: "string \<Rightarrow> string \<Rightarrow> string" where
  "spec_effective_name q name =
     (if name \<noteq> '''' \<and> name \<noteq> ''-'' then (if q \<noteq> '''' then q @ ''.'' @ name else name)
      else q)"

text \<open>
  The flags of a struct under the prefix \<open>q\<close>, in the words of the specification and of
  claim C4: a nested struct gives the flags of its children under its effective name,
  whether or not it has a name tag; another field without a name is skipped; a field of a
  supported kind gives one flag with its effective name.
\<close>

fun spec_struct_flags :: "string \<Rightarrow> Type \<Rightarrow> Flag list"
and spec_children_flags :: "string \<Rightarrow> StructField list \<Rightarrow> Flag list" where
  "spec_struct_flags q (StructT cs) = spec_children_flags q cs"
| "spec_struct_flags q (Named n u) = spec_struct_flags q u"
| "spec_struct_flags q _ = []"
| "spec_children_flags q [] = []"
| "spec_children_flags q (StructField fname tag ftype # cs) =
     (if Kind_of ftype = Struct
        then spec_struct_flags (spec_effective_name q (Get tag ''name'')) ftype
      else if Get tag ''name'' = '''' \<or> Get tag ''name'' = ''-'' then []
      else (case spec_default (Kind_of ftype) of
              None \<Rightarrow> []
            | Some d \<Rightarrow>
                [\<lparr>Name = spec_effective_name q (Get tag ''name''), Shorthand = Get tag ''short'',
                  Value = d, Usage = Get tag ''description''\<rparr>]))
     @ spec_children_flags q cs"

text \<open>
  The flags the walk hands to \<open>pflag\<close>, in its order and with the names it computes,
  when no field stops it: the definitions that \<open>parseStructToFlags\<close> makes, collected
  without the flag set (the properties below show that the walk makes exactly these).
\<close>

fun walk_struct_flags :: "string \<Rightarrow> Type \<Rightarrow> Flag list"
and walk_fields_flags :: "string \<Rightarrow> StructField list \<Rightarrow> Flag list" where
  "walk_struct_flags prefix (StructT cs) = walk_fields_flags prefix cs"
| "walk_struct_flags prefix (Named n u) = walk_struct_flags prefix u"
| "walk_struct_flags prefix _ = []"
| "walk_fields_flags prefix [] = []"
| "walk_fields_flags prefix (StructField fname tag ftype # cs) =
     (if Kind_of ftype = Struct
        then walk_struct_flags
               (if prefix \<noteq> '''' then prefix @ ''.'' @ Get tag ''name'' else Get tag ''name'') ftype
      else if Get tag ''name'' = '''' \<or> Get tag ''name'' = ''-'' then []
      else (case spec_default (Kind_of ftype) of
              None \<Rightarrow> []
            | Some d \<Rightarrow>
                [\<lparr>Name = (if prefix \<noteq> '''' then prefix @ ''.'' @ Get tag ''name'' else Get tag ''name''),
                  Shorthand = Get tag ''short'', Value = d, Usage = Get tag ''description''\<rparr>]))
     @ walk_fields_flags prefix cs"

text \<open>
  A schema error: somewhere in the struct, at any depth, a field that is not a struct has
  a name tag other than the empty one and \<open>-\<close>, and a kind outside the supported set.
\<close>

fun schema_error :: "Type \<Rightarrow> bool"
and schema_error_fields :: "StructField list \<Rightarrow> bool" where
  "schema_error (StructT cs) = schema_error_fields cs"
| "schema_error (Named n u) = schema_error u"
| "schema_error _ = False"
| "schema_error_fields [] = False"
| "schema_error_fields (StructField fname tag ftype # cs) =
     ((if Kind_of ftype = Struct then schema_error ftype
       else Get tag ''name'' \<noteq> '''' \<and> Get tag ''name'' \<noteq> ''-'' \<and> spec_default (Kind_of ftype) = None)
      \<or> schema_error_fields cs)"

text \<open>
  Every nested struct, at any depth, has a name tag that is neither empty nor \<open>-\<close>.
\<close>

fun nested_named :: "Type \<Rightarrow> bool"
and nested_named_fields :: "StructField list \<Rightarrow> bool" where
  "nested_named (StructT cs) = nested_named_fields cs"
| "nested_named (Named n u) = nested_named u"
| "nested_named _ = True"
| "nested_named_fields [] = True"
| "nested_named_fields (StructField fname tag ftype # cs) =
     ((if Kind_of ftype = Struct
         then Get tag ''name'' \<noteq> '''' \<and> Get tag ''name'' \<noteq> ''-'' \<and> nested_named ftype
       else True)
      \<and> nested_named_fields cs)"

section \<open>The manager (config.go)\<close>

text \<open>
  Of a \<open>viper.Viper\<close>, the settings the manager makes, and three layers of values a key
  resolves from: the flags given on the command line, the configuration file, and the
  defaults. \<open>viper\<close> is a library outside this repository; each setter below stores its
  argument.
\<close>

record Viper =
  envKeyReplacer :: "(char \<times> char) list"
  allowEmptyEnv :: bool
  envPrefix :: string
  configName :: string
  automaticEnv :: bool
  configPath :: string
  flagLayer :: "string \<rightharpoonup> Value"
  fileLayer :: "string \<rightharpoonup> Value"
  defaultLayer :: "string \<rightharpoonup> Value"

definition viper_New :: Viper where
  "viper_New =
     \<lparr>envKeyReplacer = [], allowEmptyEnv = False, envPrefix = '''', configName = ''config'',
      automaticEnv = False, configPath = '''', flagLayer = Map.empty, fileLayer = Map.empty,
      defaultLayer = Map.empty\<rparr>"

text \<open>
  \<open>strings.NewReplacer\<close> on pairs of one-byte strings, as the list of the pairs.
\<close>

definition NewReplacer :: "(char \<times> char) list \<Rightarrow> (char \<times> char) list" where
  "NewReplacer oldnew = oldnew"

definition SetEnvKeyReplacer :: "Viper \<Rightarrow> (char \<times> char) list \<Rightarrow> Viper" where
  "SetEnvKeyReplacer v r = v\<lparr>envKeyReplacer := r\<rparr>"

definition AllowEmptyEnv :: "Viper \<Rightarrow> bool \<Rightarrow> Viper" where
  "AllowEmptyEnv v b = v\<lparr>allowEmptyEnv := b\<rparr>"

definition SetEnvPrefix :: "Viper \<Rightarrow> string \<Rightarrow> Viper" where
  "SetEnvPrefix v p = v\<lparr>envPrefix := p\<rparr>"

definition SetConfigName :: "Viper \<Rightarrow> string \<Rightarrow> Viper" where
  "SetConfigName v n = v\<lparr>configName := n\<rparr>"

definition AutomaticEnv :: "Viper \<Rightarrow> Viper" where
  "AutomaticEnv v = v\<lparr>automaticEnv := True\<rparr>"

definition SetConfigFile :: "Viper \<Rightarrow> string \<Rightarrow> Viper" where
  "SetConfigFile v p = v\<lparr>configPath := p\<rparr>"

text \<open>
  \<open>Replacer.Replace\<close> for pairs of one-byte strings (the first pair with the byte
  wins), and \<open>strings.ToUpper\<close> on ASCII letters.
\<close>

definition Replace :: "(char \<times> char) list \<Rightarrow> string \<Rightarrow> string" where
  "Replace r s = map (\<lambda>c. case map_of r c of None \<Rightarrow> c | Some d \<Rightarrow> d) s"

definition ToUpper :: "string \<Rightarrow> string" where
  "ToUpper s =
     map (\<lambda>c. case map_of (zip ''abcdefghijklmnopqrstuvwxyz'' ''ABCDEFGHIJKLMNOPQRSTUVWXYZ'') c of
                 None \<Rightarrow> c
               | Some u \<Rightarrow> u) s"

text \<open>
  Modelled from the spec: the name of the environment variable a key resolves from,
  which \<open>viper\<close> (not part of this repository) computes from the prefix and the replacer
  that \<open>New\<close> sets. The specification (4.1, 6): the owning name is the prefix, joined by
  \<open>_\<close> to the dotted name in which the replacer has put \<open>_\<close> for \<open>.\<close> and \<open>-\<close>, all
  upper-cased.
\<close>

definition envKey :: "Viper \<Rightarrow> string \<Rightarrow> string" where
  "envKey v key = ToUpper (envPrefix v @ ''_'' @ Replace (envKeyReplacer v) key)"

text \<open>
  Modelled from the spec: the merged settings of \<open>viper\<close> (\<open>AllSettings\<close>), library
  code outside this repository. The specification (3): a key resolves from the
  command-line flag, else from the environment variable, else from the configuration
  file, else from the default. \<open>env\<close> is the environment of the process.
\<close>

definition AllSettings :: "Viper \<Rightarrow> (string \<rightharpoonup> string) \<Rightarrow> (string \<rightharpoonup> Value)" where
  "AllSettings v env =
     (\<lambda>key. case flagLayer v key of
               Some x \<Rightarrow> Some x
             | None \<Rightarrow>
                (case (if automaticEnv v then env (envKey v key) else None) of
                   Some s \<Rightarrow> Some (VString s)
                 | None \<Rightarrow>
                    (case fileLayer v key of
                       Some x \<Rightarrow> Some x
                     | None \<Rightarrow> defaultLayer v key)))"

text \<open>
  Modelled from the spec: \<open>MergeInConfig\<close> of \<open>viper\<close>, library code outside this
  repository. The specification (4.1): the contents of the file at the configured path are
  merged into the settings below flags and environment, and a file that cannot be found or
  parsed is an error. Reading and parsing the file at a path is the parameter
  \<open>readConfig\<close>; the contents go into the file layer, a key of the new file replacing the
  same key of an earlier one.
\<close>

definition MergeInConfig :: "(string \<Rightarrow> failure + (string \<rightharpoonup> Value)) \<Rightarrow> Viper \<Rightarrow> failure option \<times> Viper" where
  "MergeInConfig readConfig v =
     (case readConfig (configPath v) of
        Inl err \<Rightarrow> (Some err, v)
      | Inr contents \<Rightarrow> (None, v\<lparr>fileLayer := fileLayer v ++ contents\<rparr>))"

text \<open>
  The manager. \<open>pflag.NewFlagSet\<close> gives a flag set with no flag.
\<close>

record Manager =
  mgr_name :: string
  mgr_flags :: FlagSet
  mgr_viper :: Viper

definition NewFlagSet :: "string \<Rightarrow> FlagSet" where
  "NewFlagSet name = []"

definition New :: "string \<Rightarrow> Manager" where
  "New name =
     (let viper = viper_New;
          viper = SetEnvKeyReplacer viper (NewReplacer [(CHR ''.'', CHR ''_''), (CHR ''-'', CHR ''_'')]);
          viper = AllowEmptyEnv viper True;
          viper = SetEnvPrefix viper name;
          viper = SetConfigName viper name;
          viper = AutomaticEnv viper
      in \<lparr>mgr_name = name, mgr_flags = NewFlagSet name, mgr_viper = viper\<rparr>)"

definition AddConfigFlag :: "FlagSet \<Rightarrow> failure + FlagSet" where
  "AddConfigFlag persistentFlags =
     StringP persistentFlags ''config'' ''c'' ''./config.yml''
       ''config file (Default; config.yml in the current directory)''"

text \<open>
  \<open>ReadFromFile\<close>: the error of \<open>GetString\<close> is dropped, so a flag set without a
  \<open>config\<close> flag reads as the empty path. The result is the returned error and the
  manager afterwards.
\<close>

definition ReadFromFile ::
  "(string \<Rightarrow> failure + (string \<rightharpoonup> Value)) \<Rightarrow> Manager \<Rightarrow> FlagSet \<Rightarrow> failure option \<times> Manager" where
  "ReadFromFile readConfig mgr fs =
     (let configFile = fst (GetString fs ''config'')
      in if configFile \<noteq> ''''
         then (let r = MergeInConfig readConfig (SetConfigFile (mgr_viper mgr) configFile)
               in (fst r, mgr\<lparr>mgr_viper := snd r\<rparr>))
         else (None, mgr))"

text \<open>
  \<open>InitFlags\<close>. \<open>cfg\<close> is \<open>reflect.TypeOf\<close> of the argument, \<open>None\<close> for a nil
  interface, on which \<open>Kind\<close> cannot be called. \<open>BindPFlags\<close> of \<open>viper\<close> is a
  parameter: it returns the viper with the flags bound, or an error. The function
  panics or returns a nil error (\<open>None\<close>) and the manager afterwards.
\<close>

fun message :: "failure \<Rightarrow> string" where
  "message (Error m) = m"
| "message (Panic m) = m"

definition InitFlags ::
  "(Viper \<Rightarrow> FlagSet \<Rightarrow> failure + Viper) \<Rightarrow> Manager \<Rightarrow> Type option \<Rightarrow> failure + (failure option \<times> Manager)" where
  "InitFlags BindPFlags mgr cfg =
     (case cfg of
        None \<Rightarrow> Inl (Panic ''invalid memory address or nil pointer dereference'')
      | Some rootStruct \<Rightarrow>
          if Kind_of rootStruct \<noteq> Struct then Inl (Panic ''configuration is not a struct'')
          else (case parseStructToFlags '''' rootStruct (mgr_flags mgr) of
                  Inl p \<Rightarrow> Inl p
                | Inr flags' \<Rightarrow>
                    (case BindPFlags (mgr_viper mgr) flags' of
                       Inl err \<Rightarrow> Inl (Panic (message err))
                     | Inr viper' \<Rightarrow> Inr (None, mgr\<lparr>mgr_flags := flags', mgr_viper := viper'\<rparr>))))"

text \<open>
  \<open>Unmarshal\<close>. \<open>mapstructure\<close> is a library outside this repository: \<open>NewDecoder\<close>
  and the decoder's \<open>Decode\<close> are parameters. \<open>Decode\<close> returns its error and the target
  as it has filled it. \<open>ComposeDecodeHookFunc\<close> of the one hook is that hook. The result
  of \<open>Unmarshal\<close> is the returned error and the target afterwards; the source calls
  \<open>decoder.Decode\<close> as a statement and returns nil after it.
\<close>

record 'c DecoderConfig =
  TagName :: string
  Result :: 'c
  DecodeHook :: "Type \<Rightarrow> Type \<Rightarrow> Value \<Rightarrow> failure + Value"

definition Unmarshal ::
  "('c DecoderConfig \<Rightarrow> failure + 'd) \<Rightarrow> ('d \<Rightarrow> (string \<rightharpoonup> Value) \<Rightarrow> failure option \<times> 'c)
     \<Rightarrow> Manager \<Rightarrow> (string \<rightharpoonup> string) \<Rightarrow> 'c \<Rightarrow> failure option \<times> 'c" where
  "Unmarshal NewDecoder Decode mgr env target =
     (case NewDecoder \<lparr>TagName = ''name'', Result = target,
                        DecodeHook = stringSliceToStringMapHookFunc\<rparr> of
        Inl err \<Rightarrow> (Some err, target)
      | Inr decoder \<Rightarrow>
          (let r = Decode decoder (AllSettings (mgr_viper mgr) env)
           in (None, snd r)))"

section \<open>Properties of the decode hook\<close>

lemma Elem_of_Slice: "Kind_of f = Slice \<Longrightarrow> \<exists>fe. Elem f = Inr fe"
  by (induction f) simp_all

lemma Elem_of_Map: "Kind_of t = Map \<Longrightarrow> \<exists>te. Elem t = Inr te"
  by (induction t) simp_all

subsection \<open>Splitting at the first separator\<close>

lemma Index_None: "Index s c = None \<longleftrightarrow> c \<notin> set s"
  by (induction s) auto

lemma Index_Some:
  "Index s c = Some m \<Longrightarrow>
     take m s = takeWhile (\<lambda>d. d \<noteq> c) s \<and> drop (Suc m) s = drop 1 (dropWhile (\<lambda>d. d \<noteq> c) s)"
  by (induction s arbitrary: m) (auto split: if_splits)

lemma SplitN_2:
  "SplitN s c 2 =
     (if c \<in> set s then [takeWhile (\<lambda>d. d \<noteq> c) s, drop 1 (dropWhile (\<lambda>d. d \<noteq> c) s)] else [s])"
proof (cases "Index s c")
  case None
  then have "c \<notin> set s" by (simp add: Index_None)
  with None show ?thesis by (simp add: numeral_2_eq_2)
next
  case (Some m)
  then have "c \<in> set s" using Index_None [of s c] by auto
  with Some Index_Some [OF Some] show ?thesis by (simp add: numeral_2_eq_2)
qed

subsection \<open>The loop\<close>

lemma hook_loop_ok:
  "\<forall>s\<in>set sl. CHR ''='' \<in> set s \<Longrightarrow>
   hook_loop sl m =
     Inr (\<lambda>k. case filter (\<lambda>s. spec_key s = k) sl of
                 [] \<Rightarrow> m k
               | x # xs \<Rightarrow> Some (spec_value (last (x # xs))))"
proof (induction sl arbitrary: m)
  case Nil
  then show ?case by simp
next
  case (Cons s sl)
  have "hook_loop (s # sl) m = hook_loop sl (m(spec_key s \<mapsto> spec_value s))"
    using Cons.prems by (simp add: SplitN_2 spec_key_def spec_value_def)
  also have "\<dots> = Inr (\<lambda>k. case filter (\<lambda>s. spec_key s = k) sl of
                 [] \<Rightarrow> (m(spec_key s \<mapsto> spec_value s)) k
               | x # xs \<Rightarrow> Some (spec_value (last (x # xs))))"
    using Cons.prems by (intro Cons.IH) simp
  also have "\<dots> = Inr (\<lambda>k. case filter (\<lambda>s. spec_key s = k) (s # sl) of
                 [] \<Rightarrow> m k
               | x # xs \<Rightarrow> Some (spec_value (last (x # xs))))"
    by (auto simp: fun_eq_iff split: list.splits)
  finally show ?case .
qed

lemma hook_loop_error:
  "hook_loop sl m = Inl e \<longleftrightarrow>
     (\<exists>s. find (\<lambda>s. CHR ''='' \<notin> set s) sl = Some s \<and> e = Error (''Invalid format for input '' @ s))"
  by (induction sl arbitrary: m) (auto simp: SplitN_2)

lemma hook_on_strings:
  "slice_of_strings f \<Longrightarrow> map_to_strings t \<Longrightarrow>
   stringSliceToStringMapHookFunc f t (VStringSlice sl) =
     (case hook_loop sl Map.empty of Inl e \<Rightarrow> Inl e | Inr m \<Rightarrow> Inr (VStringMap m))"
  by (auto simp: slice_of_strings_def map_to_strings_def stringSliceToStringMapHookFunc_def
           split: sum.splits)

subsection \<open>The hook on other types\<close>

text \<open>
  Claim C10. Whenever the source type is not a slice of strings or the target type is
  not a map with string values, the hook returns the data it was given, unchanged, and
  no error: the guard returns before the data is looked at.
\<close>

theorem hook_identity_on_other_types:
  "\<not> slice_of_strings f \<or> \<not> map_to_strings t \<Longrightarrow>
   stringSliceToStringMapHookFunc f t data = Inr data"
  using Elem_of_Slice [of f] Elem_of_Map [of t]
  by (auto simp: slice_of_strings_def map_to_strings_def stringSliceToStringMapHookFunc_def
           split: sum.splits)

text \<open>
  Three instances: a slice of integers into a map of strings, a slice of strings into a
  map of integers, and a string into a defined map type.
\<close>

theorem hook_identity_on_other_types_witness:
  "stringSliceToStringMapHookFunc (SliceT IntT) (MapT StringT StringT) (VSlice [VInt 1, VInt 2])
     = Inr (VSlice [VInt 1, VInt 2])
   \<and> stringSliceToStringMapHookFunc (SliceT StringT) (MapT StringT IntT) (VStringSlice [''a=1''])
     = Inr (VStringSlice [''a=1''])
   \<and> stringSliceToStringMapHookFunc StringT (Named ''Labels'' (MapT StringT StringT)) (VString ''a=1'')
     = Inr (VString ''a=1'')"
proof -
  have 1: "\<not> slice_of_strings (SliceT IntT) \<or> \<not> map_to_strings (MapT StringT StringT)"
    by (simp add: slice_of_strings_def)
  have 2: "\<not> slice_of_strings (SliceT StringT) \<or> \<not> map_to_strings (MapT StringT IntT)"
    by (simp add: map_to_strings_def)
  have 3: "\<not> slice_of_strings StringT \<or> \<not> map_to_strings (Named ''Labels'' (MapT StringT StringT))"
    by (simp add: slice_of_strings_def)
  show ?thesis
    using hook_identity_on_other_types [OF 1] hook_identity_on_other_types [OF 2]
      hook_identity_on_other_types [OF 3]
    by simp
qed

subsection \<open>The hook on a slice of strings\<close>

text \<open>
  Claim C2. For a slice of strings that all contain \<open>=\<close>, decoded into a map with string
  values, the hook returns exactly the map that gives each key (the text before the first
  \<open>=\<close> of an element) the value (the text after it) of the last element with that key.
  In particular \<open>["a=1","b=2"]\<close> gives \<open>{a:"1", b:"2"}\<close> and \<open>["a=1","a=2"]\<close> gives
  \<open>{a:"2"}\<close>.
\<close>

theorem hook_last_write_wins:
  "(slice_of_strings f \<and> map_to_strings t \<and> (\<forall>s\<in>set sl. CHR ''='' \<in> set s) \<longrightarrow>
      stringSliceToStringMapHookFunc f t (VStringSlice sl) = Inr (VStringMap (spec_last_write_wins sl)))
   \<and> stringSliceToStringMapHookFunc (SliceT StringT) (MapT StringT StringT) (VStringSlice [''a=1'', ''b=2''])
       = Inr (VStringMap [''a'' \<mapsto> ''1'', ''b'' \<mapsto> ''2''])
   \<and> stringSliceToStringMapHookFunc (SliceT StringT) (MapT StringT StringT) (VStringSlice [''a=1'', ''a=2''])
       = Inr (VStringMap [''a'' \<mapsto> ''2''])"
proof (intro conjI impI)
  assume h: "slice_of_strings f \<and> map_to_strings t \<and> (\<forall>s\<in>set sl. CHR ''='' \<in> set s)"
  then have "hook_loop sl Map.empty = Inr (spec_last_write_wins sl)"
    by (simp add: hook_loop_ok spec_last_write_wins_def)
  with h show "stringSliceToStringMapHookFunc f t (VStringSlice sl) = Inr (VStringMap (spec_last_write_wins sl))"
    by (simp add: hook_on_strings)
next
  show "stringSliceToStringMapHookFunc (SliceT StringT) (MapT StringT StringT) (VStringSlice [''a=1'', ''b=2''])
       = Inr (VStringMap [''a'' \<mapsto> ''1'', ''b'' \<mapsto> ''2''])"
    by (simp add: stringSliceToStringMapHookFunc_def numeral_2_eq_2)
next
  show "stringSliceToStringMapHookFunc (SliceT StringT) (MapT StringT StringT) (VStringSlice [''a=1'', ''a=2''])
       = Inr (VStringMap [''a'' \<mapsto> ''2''])"
    by (simp add: stringSliceToStringMapHookFunc_def numeral_2_eq_2)
qed

text \<open>
  An instance with a repeated key, an empty value and a value that itself contains
  \<open>=\<close>.
\<close>

theorem hook_last_write_wins_witness:
  "slice_of_strings (SliceT StringT) \<and> map_to_strings (MapT StringT StringT)
   \<and> CHR ''='' \<in> set ''k=v=w'' \<and> CHR ''='' \<in> set ''j='' \<and> CHR ''='' \<in> set ''k=x''
   \<and> (\<exists>m. stringSliceToStringMapHookFunc (SliceT StringT) (MapT StringT StringT)
             (VStringSlice [''k=v=w'', ''j='', ''k=x'']) = Inr (VStringMap m)
          \<and> m ''k'' = Some ''x'' \<and> m ''j'' = Some '''' \<and> m ''v'' = None)"
proof -
  have h: "slice_of_strings (SliceT StringT) \<and> map_to_strings (MapT StringT StringT)
   \<and> (\<forall>s\<in>set [''k=v=w'', ''j='', ''k=x'']. CHR ''='' \<in> set s)"
    by (simp add: slice_of_strings_def map_to_strings_def)
  have "spec_last_write_wins [''k=v=w'', ''j='', ''k=x''] ''k'' = Some ''x''"
       "spec_last_write_wins [''k=v=w'', ''j='', ''k=x''] ''j'' = Some ''''"
       "spec_last_write_wins [''k=v=w'', ''j='', ''k=x''] ''v'' = None"
    by (simp_all add: spec_last_write_wins_def spec_key_def spec_value_def)
  moreover have "CHR ''='' \<in> set ''k=v=w'' \<and> CHR ''='' \<in> set ''j='' \<and> CHR ''='' \<in> set ''k=x''"
    by simp
  ultimately show ?thesis
    using h hook_last_write_wins [of "SliceT StringT" "MapT StringT StringT" "[''k=v=w'', ''j='', ''k=x'']"]
    by blast
qed

text \<open>
  Claim C3, as stated, asks for an error whenever an element does not have exactly one
  \<open>=\<close>. The element \<open>a=b=c\<close> has two, and the hook accepts it: \<open>SplitN\<close> with a limit
  of two cuts at the first \<open>=\<close> only and leaves the second in the value.
\<close>

theorem hook_error_exactly_one_eq_counterexample:
  "count_list ''a=b=c'' (CHR ''='') = 2
   \<and> stringSliceToStringMapHookFunc (SliceT StringT) (MapT StringT StringT) (VStringSlice [''a=b=c''])
       = Inr (VStringMap [''a'' \<mapsto> ''b=c''])"
  by (simp add: stringSliceToStringMapHookFunc_def numeral_2_eq_2)

text \<open>
  Claim C3, amended. For a slice of strings decoded into a map with string values, the
  hook returns an error if and only if some element contains no \<open>=\<close> at all, and the
  error then names such an element: its message is \<open>Invalid format for input\<close> followed
  by the element.
\<close>

theorem hook_error_iff_no_eq:
  "slice_of_strings f \<and> map_to_strings t \<longrightarrow>
     ((\<exists>e. stringSliceToStringMapHookFunc f t (VStringSlice sl) = Inl e)
        \<longleftrightarrow> (\<exists>s\<in>set sl. CHR ''='' \<notin> set s))
     \<and> (\<forall>e. stringSliceToStringMapHookFunc f t (VStringSlice sl) = Inl e \<longrightarrow>
            (\<exists>s\<in>set sl. CHR ''='' \<notin> set s \<and> e = Error (''Invalid format for input '' @ s)))"
proof (intro impI)
  assume h: "slice_of_strings f \<and> map_to_strings t"
  have eq: "stringSliceToStringMapHookFunc f t (VStringSlice sl) = Inl e \<longleftrightarrow>
        (\<exists>s. find (\<lambda>s. CHR ''='' \<notin> set s) sl = Some s \<and> e = Error (''Invalid format for input '' @ s))" for e
  proof (cases "hook_loop sl Map.empty")
    case (Inl e')
    with h have "stringSliceToStringMapHookFunc f t (VStringSlice sl) = Inl e'"
      by (simp add: hook_on_strings)
    with Inl hook_loop_error [of sl Map.empty e] show ?thesis by simp
  next
    case (Inr m)
    with h have "stringSliceToStringMapHookFunc f t (VStringSlice sl) = Inr (VStringMap m)"
      by (simp add: hook_on_strings)
    with Inr hook_loop_error [of sl Map.empty e] show ?thesis by simp
  qed
  have find_iff: "(\<exists>s. find (\<lambda>s. CHR ''='' \<notin> set s) sl = Some s) \<longleftrightarrow> (\<exists>s\<in>set sl. CHR ''='' \<notin> set s)"
    using find_None_iff [of "\<lambda>s. CHR ''='' \<notin> set s" sl] by auto
  have find_in: "find (\<lambda>s. CHR ''='' \<notin> set s) sl = Some s \<Longrightarrow> s \<in> set sl \<and> CHR ''='' \<notin> set s" for s
    by (auto simp: find_Some_iff)
  have "(\<exists>e. stringSliceToStringMapHookFunc f t (VStringSlice sl) = Inl e)
          \<longleftrightarrow> (\<exists>s. find (\<lambda>s. CHR ''='' \<notin> set s) sl = Some s)"
    by (simp add: eq)
  then have A: "(\<exists>e. stringSliceToStringMapHookFunc f t (VStringSlice sl) = Inl e)
          \<longleftrightarrow> (\<exists>s\<in>set sl. CHR ''='' \<notin> set s)"
    by (simp only: find_iff)
  have B: "\<exists>s\<in>set sl. CHR ''='' \<notin> set s \<and> e = Error (''Invalid format for input '' @ s)"
    if "stringSliceToStringMapHookFunc f t (VStringSlice sl) = Inl e" for e
  proof -
    from that obtain s where "find (\<lambda>s. CHR ''='' \<notin> set s) sl = Some s"
      and "e = Error (''Invalid format for input '' @ s)"
      using eq by blast
    with find_in [of s] show ?thesis by blast
  qed
  from A B show "((\<exists>e. stringSliceToStringMapHookFunc f t (VStringSlice sl) = Inl e)
        \<longleftrightarrow> (\<exists>s\<in>set sl. CHR ''='' \<notin> set s))
     \<and> (\<forall>e. stringSliceToStringMapHookFunc f t (VStringSlice sl) = Inl e \<longrightarrow>
            (\<exists>s\<in>set sl. CHR ''='' \<notin> set s \<and> e = Error (''Invalid format for input '' @ s)))"
    by blast
qed

text \<open>
  An instance: the second element has no \<open>=\<close>, and the error names it.
\<close>

theorem hook_error_iff_no_eq_witness:
  "slice_of_strings (SliceT StringT) \<and> map_to_strings (MapT StringT StringT)
   \<and> stringSliceToStringMapHookFunc (SliceT StringT) (MapT StringT StringT)
         (VStringSlice [''a=1'', ''bad'', ''worse'']) = Inl (Error ''Invalid format for input bad'')
   \<and> (\<exists>s\<in>set [''a=1'', ''bad'', ''worse'']. CHR ''='' \<notin> set s)"
proof -
  have h: "slice_of_strings (SliceT StringT) \<and> map_to_strings (MapT StringT StringT)"
    by (simp add: slice_of_strings_def map_to_strings_def)
  have r: "stringSliceToStringMapHookFunc (SliceT StringT) (MapT StringT StringT)
         (VStringSlice [''a=1'', ''bad'', ''worse'']) = Inl (Error ''Invalid format for input bad'')"
    by (simp add: stringSliceToStringMapHookFunc_def numeral_2_eq_2)
  from h r hook_error_iff_no_eq [of "SliceT StringT" "MapT StringT StringT" "[''a=1'', ''bad'', ''worse'']"]
  show ?thesis by blast
qed

section \<open>Properties of registration\<close>

subsection \<open>What pflag accepts\<close>


lemma AddFlag_Inr:
  "AddFlag fs flag = Inr fs' \<Longrightarrow> fs' = fs @ [flag]"
  by (auto simp: AddFlag_def split: if_splits)

lemma AddFlag_panic: "AddFlag fs flag = Inl p \<Longrightarrow> \<exists>m. p = Panic m"
  by (auto simp: AddFlag_def split: if_splits)

lemma AddFlags_panic: "AddFlags fs new = Inl p \<Longrightarrow> \<exists>m. p = Panic m"
proof (induction new arbitrary: fs)
  case Nil
  then show ?case by simp
next
  case (Cons flag new)
  show ?case
  proof (cases "AddFlag fs flag")
    case (Inl p')
    with Cons.prems have "p' = p" by simp
    with Inl show ?thesis using AddFlag_panic by blast
  next
    case (Inr fs')
    with Cons.prems have "AddFlags fs' new = Inl p" by simp
    then show ?thesis by (rule Cons.IH)
  qed
qed

lemma AddFlags_append:
  "AddFlags fs (a @ b) =
     (case AddFlags fs a of Inl p \<Rightarrow> Inl p | Inr fs' \<Rightarrow> AddFlags fs' b)"
proof (induction a arbitrary: fs)
  case Nil
  show ?case by simp
next
  case (Cons flag a)
  show ?case
    by (cases "AddFlag fs flag") (simp_all add: Cons.IH)
qed

lemma AddFlags_Inr:
  "AddFlags fs new = Inr fs' \<Longrightarrow> fs' = fs @ new"
proof (induction new arbitrary: fs)
  case Nil
  then show ?case by simp
next
  case (Cons flag new)
  show ?case
  proof (cases "AddFlag fs flag")
    case (Inl p)
    with Cons.prems show ?thesis by simp
  next
    case (Inr fs1)
    with Cons.prems have "AddFlags fs1 new = Inr fs'" by simp
    then have "fs' = fs1 @ new" by (rule Cons.IH)
    with AddFlag_Inr [OF Inr] show ?thesis by simp
  qed
qed

subsection \<open>One field at a time\<close>

lemma parseFields_skip:
  "Get tag ''name'' = '''' \<or> Get tag ''name'' = ''-'' \<Longrightarrow> Kind_of ftype \<noteq> Struct \<Longrightarrow>
   parseFields prefix (StructField fname tag ftype # rest) flags = parseFields prefix rest flags"
  by (simp add: Let_def)

lemma parseFields_struct:
  "Kind_of ftype = Struct \<Longrightarrow>
   parseFields prefix (StructField fname tag ftype # rest) flags =
     (case parseStructToFlags (if prefix \<noteq> '''' then prefix @ ''.'' @ Get tag ''name'' else Get tag ''name'') ftype flags of
        Inl p \<Rightarrow> Inl p
      | Inr flags' \<Rightarrow> parseFields prefix rest flags')"
  by (simp add: Let_def)

lemma parseFields_primitive:
  "spec_default (Kind_of ftype) = Some d \<Longrightarrow> Get tag ''name'' \<noteq> '''' \<Longrightarrow> Get tag ''name'' \<noteq> ''-'' \<Longrightarrow>
   parseFields prefix (StructField fname tag ftype # rest) flags =
     (case AddFlag flags
             \<lparr>Name = (if prefix \<noteq> '''' then prefix @ ''.'' @ Get tag ''name'' else Get tag ''name''),
               Shorthand = Get tag ''short'', Value = d, Usage = Get tag ''description''\<rparr> of
        Inl p \<Rightarrow> Inl p
      | Inr flags' \<Rightarrow> parseFields prefix rest flags')"
  by (cases "Kind_of ftype")
     (simp_all add: Let_def StringP_def BoolP_def UintP_def Uint64P_def IntP_def Int64P_def
        Float64P_def StringSliceP_def)

lemma parseFields_unsupported:
  "spec_default (Kind_of ftype) = None \<Longrightarrow> Kind_of ftype \<noteq> Struct \<Longrightarrow>
   Get tag ''name'' \<noteq> '''' \<Longrightarrow> Get tag ''name'' \<noteq> ''-'' \<Longrightarrow>
   parseFields prefix (StructField fname tag ftype # rest) flags =
     Inl (Panic (''Unknown type in config: '' @ Kind_String (Kind_of ftype)))"
  by (cases "Kind_of ftype") (simp_all add: Let_def)

lemma field_cases:
  obtains (struct) "Kind_of ftype = Struct"
    | (skip) "Kind_of ftype \<noteq> Struct" "Get tag ''name'' = '''' \<or> Get tag ''name'' = ''-''"
    | (prim) d where "Kind_of ftype \<noteq> Struct" "Get tag ''name'' \<noteq> ''''" "Get tag ''name'' \<noteq> ''-''"
        "spec_default (Kind_of ftype) = Some d"
    | (unsupp) "Kind_of ftype \<noteq> Struct" "Get tag ''name'' \<noteq> ''''" "Get tag ''name'' \<noteq> ''-''"
        "spec_default (Kind_of ftype) = None"
  by (cases "spec_default (Kind_of ftype)") auto

lemma parseFields_Cons:
  "parseFields prefix (fld # rest) flags =
     (case parseFields prefix [fld] flags of
        Inl p \<Rightarrow> Inl p
      | Inr flags' \<Rightarrow> parseFields prefix rest flags')"
proof (cases fld)
  case (StructField fname tag ftype)
  show ?thesis
  proof (cases rule: field_cases [where ftype = ftype and tag = tag])
    case struct
    then show ?thesis
      unfolding StructField parseFields_struct [OF struct] by (simp split: sum.splits)
  next
    case skip
    then show ?thesis
      unfolding StructField parseFields_skip [OF skip(2) skip(1)] by simp
  next
    case (prim d)
    then show ?thesis
      unfolding StructField parseFields_primitive [OF prim(4) prim(2) prim(3)]
      by (simp split: sum.splits)
  next
    case unsupp
    then show ?thesis
      unfolding StructField parseFields_unsupported [OF unsupp(4) unsupp(1) unsupp(2) unsupp(3)] by simp
  qed
qed

lemma parseFields_append:
  "parseFields prefix (pre @ post) flags =
     (case parseFields prefix pre flags of
        Inl p \<Rightarrow> Inl p
      | Inr flags' \<Rightarrow> parseFields prefix post flags')"
proof (induction pre arbitrary: flags)
  case Nil
  show ?case by simp
next
  case (Cons fld pre)
  show ?case
  proof (cases "parseFields prefix [fld] flags")
    case (Inl p)
    then show ?thesis
      using parseFields_Cons [of prefix fld "pre @ post" flags] parseFields_Cons [of prefix fld pre flags]
      by simp
  next
    case (Inr flags')
    then show ?thesis
      using parseFields_Cons [of prefix fld "pre @ post" flags] parseFields_Cons [of prefix fld pre flags]
        Cons.IH [of flags']
      by simp
  qed
qed

lemma walk_fields_flags_Cons:
  "walk_fields_flags q (fld # cs) = walk_fields_flags q [fld] @ walk_fields_flags q cs"
  by (cases fld) simp

lemma schema_error_fields_Cons:
  "schema_error_fields (fld # cs) \<longleftrightarrow> schema_error_fields [fld] \<or> schema_error_fields cs"
  by (cases fld) simp

subsection \<open>The whole walk\<close>

lemma walk_exact:
  shows "\<forall>q fl. Kind_of T = Struct \<longrightarrow> \<not> schema_error T \<longrightarrow>
       parseStructToFlags q T fl = AddFlags fl (walk_struct_flags q T)"
    and "\<forall>q fl. \<not> schema_error_fields [fld] \<longrightarrow>
       parseFields q [fld] fl = AddFlags fl (walk_fields_flags q [fld])"
proof (induction T and fld)
  case (StructT cs)
  have "parseFields q cs fl = AddFlags fl (walk_fields_flags q cs)"
    if "\<not> schema_error_fields cs" for q fl
    using that StructT.IH
  proof (induction cs arbitrary: fl)
    case Nil
    show ?case by simp
  next
    case (Cons c cs)
    from Cons.prems(1) have ok: "\<not> schema_error_fields [c]" "\<not> schema_error_fields cs"
      using schema_error_fields_Cons [of c cs] by auto
    have 1: "parseFields q [c] fl = AddFlags fl (walk_fields_flags q [c])"
      using Cons.prems(2) [of c] ok(1) by simp
    have 2: "parseFields q cs fl' = AddFlags fl' (walk_fields_flags q cs)" for fl'
    proof (rule Cons.IH [OF ok(2)])
      fix xa assume "xa \<in> set cs"
      then show "\<forall>q fl. \<not> schema_error_fields [xa] \<longrightarrow>
          parseFields q [xa] fl = AddFlags fl (walk_fields_flags q [xa])"
        using Cons.prems(2) [of xa] by simp
    qed
    show ?case
      unfolding parseFields_Cons [of q c cs fl] 1 walk_fields_flags_Cons [of q c cs]
        AddFlags_append 2 ..
  qed
  then show ?case by simp
next
  case (StructField fname tag ftype)
  show ?case
  proof (intro allI impI)
    fix q :: string and fl
    assume ok: "\<not> schema_error_fields [StructField fname tag ftype]"
    show "parseFields q [StructField fname tag ftype] fl
            = AddFlags fl (walk_fields_flags q [StructField fname tag ftype])"
    proof (cases rule: field_cases [where ftype = ftype and tag = tag])
      case struct
      define q' where "q' = (if q \<noteq> '''' then q @ ''.'' @ Get tag ''name'' else Get tag ''name'')"
      from ok struct have "\<not> schema_error ftype" by simp
      with StructField.IH struct
      have IH: "parseStructToFlags q' ftype fl = AddFlags fl (walk_struct_flags q' ftype)"
        by blast
      have eq: "parseFields q [StructField fname tag ftype] fl =
          (case parseStructToFlags q' ftype fl of Inl p \<Rightarrow> Inl p | Inr flags' \<Rightarrow> Inr flags')"
        unfolding q'_def parseFields_struct [OF struct] parseFields.simps(1) ..
      have w: "walk_fields_flags q [StructField fname tag ftype] = walk_struct_flags q' ftype"
        unfolding q'_def using struct by simp
      show ?thesis
        unfolding eq w IH by (cases "AddFlags fl (walk_struct_flags q' ftype)") simp_all
    next
      case skip
      then show ?thesis
        unfolding parseFields_skip [OF skip(2) skip(1)] by auto
    next
      case (prim d)
      then show ?thesis
        unfolding parseFields_primitive [OF prim(4) prim(2) prim(3)]
        by (simp split: sum.splits)
    next
      case unsupp
      with ok show ?thesis by simp
    qed
  qed
qed simp_all

lemma walk_panics:
  shows "\<forall>q fl. Kind_of T = Struct \<longrightarrow>
       (case parseStructToFlags q T fl of
          Inl p \<Rightarrow> (\<exists>m. p = Panic m)
        | Inr fl' \<Rightarrow> \<not> schema_error T)"
    and "\<forall>q fl.
       (case parseFields q [fld] fl of
          Inl p \<Rightarrow> (\<exists>m. p = Panic m)
        | Inr fl' \<Rightarrow> \<not> schema_error_fields [fld])"
proof (induction T and fld)
  case (StructT cs)
  have H: "case parseFields q cs fl of
          Inl p \<Rightarrow> (\<exists>m. p = Panic m)
        | Inr fl' \<Rightarrow> \<not> schema_error_fields cs" for q fl
    using StructT.IH
  proof (induction cs arbitrary: fl)
    case Nil
    show ?case by simp
  next
    case (Cons c cs)
    have c: "case parseFields q [c] fl of
          Inl p \<Rightarrow> (\<exists>m. p = Panic m)
        | Inr fl' \<Rightarrow> \<not> schema_error_fields [c]"
      using Cons.prems [of c] by simp
    show ?case
    proof (cases "parseFields q [c] fl")
      case (Inl p)
      with c show ?thesis
        unfolding parseFields_Cons [of q c cs fl] schema_error_fields_Cons [of c cs] by simp
    next
      case (Inr fl')
      have "case parseFields q cs fl' of
          Inl p \<Rightarrow> (\<exists>m. p = Panic m)
        | Inr fl'' \<Rightarrow> \<not> schema_error_fields cs"
      proof (rule Cons.IH)
        fix xa assume "xa \<in> set cs"
        then show "\<forall>q fl. case parseFields q [xa] fl of
            Inl p \<Rightarrow> (\<exists>m. p = Panic m)
          | Inr fl' \<Rightarrow> \<not> schema_error_fields [xa]"
          using Cons.prems [of xa] by simp
      qed
      with c Inr show ?thesis
        unfolding parseFields_Cons [of q c cs fl] schema_error_fields_Cons [of c cs]
        by (simp split: sum.splits)
    qed
  qed
  show ?case
    unfolding parseStructToFlags.simps schema_error.simps using H by simp
next
  case (StructField fname tag ftype)
  show ?case
  proof (intro allI)
    fix q fl
    show "case parseFields q [StructField fname tag ftype] fl of
          Inl p \<Rightarrow> (\<exists>m. p = Panic m)
        | Inr fl' \<Rightarrow> \<not> schema_error_fields [StructField fname tag ftype]"
    proof (cases rule: field_cases [where ftype = ftype and tag = tag])
      case struct
      define q' where "q' = (if q \<noteq> '''' then q @ ''.'' @ Get tag ''name'' else Get tag ''name'')"
      have IH: "case parseStructToFlags q' ftype fl of
          Inl p \<Rightarrow> (\<exists>m. p = Panic m)
        | Inr fl' \<Rightarrow> \<not> schema_error ftype"
        using StructField.IH struct by blast
      have eq: "parseFields q [StructField fname tag ftype] fl =
          (case parseStructToFlags q' ftype fl of Inl p \<Rightarrow> Inl p | Inr flags' \<Rightarrow> Inr flags')"
        unfolding q'_def parseFields_struct [OF struct] parseFields.simps(1) ..
      have se: "schema_error_fields [StructField fname tag ftype] = schema_error ftype"
        using struct by simp
      show ?thesis
        unfolding eq se using IH by (cases "parseStructToFlags q' ftype fl") simp_all
    next
      case skip
      then show ?thesis
        unfolding parseFields_skip [OF skip(2) skip(1)] by auto
    next
      case (prim d)
      define flag where "flag = \<lparr>Name = (if q \<noteq> '''' then q @ ''.'' @ Get tag ''name'' else Get tag ''name''),
               Shorthand = Get tag ''short'', Value = d, Usage = Get tag ''description''\<rparr>"
      have eq: "parseFields q [StructField fname tag ftype] fl =
          (case AddFlag fl flag of Inl p \<Rightarrow> Inl p | Inr flags' \<Rightarrow> Inr flags')"
        unfolding flag_def parseFields_primitive [OF prim(4) prim(2) prim(3)] parseFields.simps(1) ..
      have se: "\<not> schema_error_fields [StructField fname tag ftype]"
        using prim by simp
      show ?thesis
        unfolding eq using se AddFlag_panic [of fl flag]
        by (cases "AddFlag fl flag") simp_all
    next
      case unsupp
      then show ?thesis
        unfolding parseFields_unsupported [OF unsupp(4) unsupp(1) unsupp(2) unsupp(3)] by simp
    qed
  qed
next
  case (Named n u)
  then show ?case
    unfolding Kind_of.simps parseStructToFlags.simps schema_error.simps .
qed simp_all

subsection \<open>Nested structs\<close>

lemma spec_children_flags_Cons:
  "spec_children_flags q (fld # cs) = spec_children_flags q [fld] @ spec_children_flags q cs"
  by (cases fld) simp

lemma nested_named_fields_Cons:
  "nested_named_fields (fld # cs) \<longleftrightarrow> nested_named_fields [fld] \<and> nested_named_fields cs"
  by (cases fld) simp

lemma walk_flags_agree_with_spec:
  shows "\<forall>q. nested_named T \<longrightarrow> walk_struct_flags q T = spec_struct_flags q T"
    and "\<forall>q. nested_named_fields [fld] \<longrightarrow> walk_fields_flags q [fld] = spec_children_flags q [fld]"
proof (induction T and fld)
  case (StructT cs)
  have "walk_fields_flags q cs = spec_children_flags q cs" if "nested_named_fields cs" for q
    using that StructT.IH
  proof (induction cs)
    case Nil
    show ?case by simp
  next
    case (Cons c cs)
    from Cons.prems(1) have ok: "nested_named_fields [c]" "nested_named_fields cs"
      using nested_named_fields_Cons [of c cs] by auto
    have 1: "walk_fields_flags q [c] = spec_children_flags q [c]"
      using Cons.prems(2) [of c] ok(1) by simp
    have 2: "walk_fields_flags q cs = spec_children_flags q cs"
    proof (rule Cons.IH [OF ok(2)])
      fix xa assume "xa \<in> set cs"
      then show "\<forall>q. nested_named_fields [xa] \<longrightarrow> walk_fields_flags q [xa] = spec_children_flags q [xa]"
        using Cons.prems(2) [of xa] by simp
    qed
    show ?case
      unfolding walk_fields_flags_Cons [of q c cs] spec_children_flags_Cons [of q c cs] 1 2 ..
  qed
  then show ?case by simp
next
  case (StructField fname tag ftype)
  show ?case
  proof (intro allI impI)
    fix q :: string
    assume ok: "nested_named_fields [StructField fname tag ftype]"
    show "walk_fields_flags q [StructField fname tag ftype]
            = spec_children_flags q [StructField fname tag ftype]"
    proof (cases "Kind_of ftype = Struct")
      case True
      with ok have n: "Get tag ''name'' \<noteq> ''''" "Get tag ''name'' \<noteq> ''-''" and "nested_named ftype"
        by simp_all
      with StructField.IH
      have "walk_struct_flags (spec_effective_name q (Get tag ''name'')) ftype
              = spec_struct_flags (spec_effective_name q (Get tag ''name'')) ftype"
        by blast
      with True n show ?thesis by (simp add: spec_effective_name_def)
    next
      case False
      then show ?thesis by (auto simp: spec_effective_name_def split: option.splits)
    qed
  qed
qed simp_all

lemma walk_as_specified:
  "Kind_of T = Struct \<Longrightarrow> \<not> schema_error T \<Longrightarrow> nested_named T \<Longrightarrow>
   parseStructToFlags q T fl = AddFlags fl (spec_struct_flags q T)"
  using walk_exact(1) [of T] walk_flags_agree_with_spec(1) [of T] by simp

text \<open>
  Claim C4 on a struct \<open>Server\<close> tagged \<open>server\<close> that holds a nested struct \<open>TLS\<close> with
  no name tag, with one field tagged \<open>cert\<close>. By the claim and the specification the
  child of the untagged struct is registered under the prefix of its parent, joined with a
  dot, as \<open>server.cert\<close>. The walk appends a dot and the empty name to the prefix and
  registers \<open>server..cert\<close>. At the root, where the prefix is empty, the same untagged
  struct registers \<open>cert\<close>, as the specification says. A nested struct tagged \<open>-\<close>
  takes \<open>-\<close> for its name in the same way.
\<close>

theorem untagged_nested_struct_double_dot:
  "parseStructToFlags ''''
     (StructT [StructField ''Server'' [(''name'', ''server'')]
       (StructT [StructField ''TLS'' []
         (StructT [StructField ''Cert'' [(''name'', ''cert'')] StringT])])]) []
     = Inr [\<lparr>Name = ''server..cert'', Shorthand = '''', Value = StringValue '''', Usage = ''''\<rparr>]
   \<and> spec_struct_flags ''''
     (StructT [StructField ''Server'' [(''name'', ''server'')]
       (StructT [StructField ''TLS'' []
         (StructT [StructField ''Cert'' [(''name'', ''cert'')] StringT])])])
     = [\<lparr>Name = ''server.cert'', Shorthand = '''', Value = StringValue '''', Usage = ''''\<rparr>]
   \<and> parseStructToFlags ''''
     (StructT [StructField ''TLS'' []
         (StructT [StructField ''Cert'' [(''name'', ''cert'')] StringT])]) []
     = Inr [\<lparr>Name = ''cert'', Shorthand = '''', Value = StringValue '''', Usage = ''''\<rparr>]
   \<and> spec_struct_flags ''''
     (StructT [StructField ''TLS'' []
         (StructT [StructField ''Cert'' [(''name'', ''cert'')] StringT])])
     = [\<lparr>Name = ''cert'', Shorthand = '''', Value = StringValue '''', Usage = ''''\<rparr>]
   \<and> parseStructToFlags ''''
     (StructT [StructField ''TLS'' [(''name'', ''-'')]
         (StructT [StructField ''Cert'' [(''name'', ''cert'')] StringT])]) []
     = Inr [\<lparr>Name = ''-.cert'', Shorthand = '''', Value = StringValue '''', Usage = ''''\<rparr>]"
  by (simp add: Get_def StringP_def AddFlag_def spec_effective_name_def)

subsection \<open>Fields of a supported kind, and skipped fields\<close>



text \<open>
  Claim C6. A field that is not a struct and whose name tag is empty or \<open>-\<close> adds no
  flag, and the walk over a struct that has such a field, anywhere among its fields,
  gives the same result as the walk over the struct without it.
\<close>

theorem unnamed_field_is_skipped:
  "(Get tag ''name'' = '''' \<or> Get tag ''name'' = ''-'') \<and> Kind_of ftype \<noteq> Struct \<longrightarrow>
     parseFields prefix [StructField fname tag ftype] flags = Inr flags
     \<and> parseFields prefix (pre @ StructField fname tag ftype # post) flags
         = parseFields prefix (pre @ post) flags
     \<and> parseStructToFlags prefix (StructT (pre @ StructField fname tag ftype # post)) flags
         = parseStructToFlags prefix (StructT (pre @ post)) flags"
proof (intro impI)
  assume h: "(Get tag ''name'' = '''' \<or> Get tag ''name'' = ''-'') \<and> Kind_of ftype \<noteq> Struct"
  then have n: "Get tag ''name'' = '''' \<or> Get tag ''name'' = ''-''" and k: "Kind_of ftype \<noteq> Struct"
    by simp_all
  have 1: "parseFields prefix [StructField fname tag ftype] flags = Inr flags"
    unfolding parseFields_skip [OF n k] by simp
  have 2: "parseFields prefix (pre @ StructField fname tag ftype # post) flags
         = parseFields prefix (pre @ post) flags"
    unfolding parseFields_append [of prefix pre] parseFields_skip [OF n k] ..
  from 1 2 show "parseFields prefix [StructField fname tag ftype] flags = Inr flags
     \<and> parseFields prefix (pre @ StructField fname tag ftype # post) flags
         = parseFields prefix (pre @ post) flags
     \<and> parseStructToFlags prefix (StructT (pre @ StructField fname tag ftype # post)) flags
         = parseStructToFlags prefix (StructT (pre @ post)) flags"
    unfolding parseStructToFlags.simps by simp
qed

text \<open>
  An instance: a channel field tagged \<open>-\<close> between two registered fields. Its kind is
  not supported, and it is skipped before the kind is looked at.
\<close>

theorem unnamed_field_is_skipped_witness:
  "parseStructToFlags ''''
     (StructT [StructField ''Host'' [(''name'', ''host'')] StringT,
               StructField ''done'' [(''name'', ''-'')] (ChanT BoolT),
               StructField ''Verbose'' [(''name'', ''verbose'')] BoolT]) []
   = Inr [\<lparr>Name = ''host'', Shorthand = '''', Value = StringValue '''', Usage = ''''\<rparr>,
          \<lparr>Name = ''verbose'', Shorthand = '''', Value = BoolValue False, Usage = ''''\<rparr>]"
proof -
  have h: "(Get [(''name'', ''-'')] ''name'' = '''' \<or> Get [(''name'', ''-'')] ''name'' = ''-'')
      \<and> Kind_of (ChanT BoolT) \<noteq> Struct"
    by (simp add: Get_def)
  have "parseStructToFlags ''''
     (StructT ([StructField ''Host'' [(''name'', ''host'')] StringT]
               @ [StructField ''Verbose'' [(''name'', ''verbose'')] BoolT])) []
   = Inr [\<lparr>Name = ''host'', Shorthand = '''', Value = StringValue '''', Usage = ''''\<rparr>,
          \<lparr>Name = ''verbose'', Shorthand = '''', Value = BoolValue False, Usage = ''''\<rparr>]"
    by (simp add: Get_def StringP_def BoolP_def AddFlag_def)
  with unnamed_field_is_skipped [of "[(''name'', ''-'')]" "ChanT BoolT" "''''" "''done''" "[]"
      "[StructField ''Host'' [(''name'', ''host'')] StringT]"
      "[StructField ''Verbose'' [(''name'', ''verbose'')] BoolT]"] h
  show ?thesis by simp
qed

section \<open>Properties of the manager\<close>

subsection \<open>Aborts and returned errors\<close>

lemma walk_result:
  assumes "Kind_of T = Struct"
  shows "parseStructToFlags q T fl =
     (if schema_error T
        then Inl (case parseStructToFlags q T fl of Inl p \<Rightarrow> p | Inr x \<Rightarrow> Panic '''')
      else AddFlags fl (walk_struct_flags q T))"
    and "schema_error T \<Longrightarrow> \<exists>m. parseStructToFlags q T fl = Inl (Panic m)"
    and "parseStructToFlags q T fl = Inl p \<Longrightarrow> \<exists>m. p = Panic m"
proof -
  note w = walk_panics(1) [of T, rule_format, OF assms, of q fl]
  show c: "schema_error T \<Longrightarrow> \<exists>m. parseStructToFlags q T fl = Inl (Panic m)"
    using w by (cases "parseStructToFlags q T fl") auto
  show "parseStructToFlags q T fl = Inl p \<Longrightarrow> \<exists>m. p = Panic m"
    using w by simp
  show "parseStructToFlags q T fl =
     (if schema_error T
        then Inl (case parseStructToFlags q T fl of Inl p \<Rightarrow> p | Inr x \<Rightarrow> Panic '''')
      else AddFlags fl (walk_struct_flags q T))"
  proof (cases "schema_error T")
    case True
    with c obtain m where "parseStructToFlags q T fl = Inl (Panic m)" by blast
    with True show ?thesis by simp
  next
    case False
    with walk_exact(1) [of T] assms show ?thesis by simp
  qed
qed

lemma InitFlags_panics_iff:
  "(\<exists>p. InitFlags BindPFlags mgr cfg = Inl p) \<longleftrightarrow>
     (cfg = None \<or> (\<exists>T. cfg = Some T \<and> (Kind_of T \<noteq> Struct \<or> schema_error T
          \<or> isl (AddFlags (mgr_flags mgr) (walk_struct_flags '''' T))
          \<or> isl (BindPFlags (mgr_viper mgr) (mgr_flags mgr @ walk_struct_flags '''' T)))))"
proof (cases cfg)
  case None
  then show ?thesis by (simp add: InitFlags_def)
next
  case (Some T)
  show ?thesis
  proof (cases "Kind_of T = Struct")
    case False
    with Some show ?thesis by (simp add: InitFlags_def)
  next
    case True
    show ?thesis
    proof (cases "schema_error T")
      case se: True
      with walk_result(2) [OF True] obtain m
        where "parseStructToFlags '''' T (mgr_flags mgr) = Inl (Panic m)" by blast
      with Some True se show ?thesis by (simp add: InitFlags_def)
    next
      case se: False
      with walk_result(1) [OF True, of "''''" "mgr_flags mgr"]
      have eq: "parseStructToFlags '''' T (mgr_flags mgr)
          = AddFlags (mgr_flags mgr) (walk_struct_flags '''' T)"
        by simp
      show ?thesis
      proof (cases "AddFlags (mgr_flags mgr) (walk_struct_flags '''' T)")
        case (Inl p)
        with Some True se eq show ?thesis by (simp add: InitFlags_def)
      next
        case (Inr fl)
        then have fl: "fl = mgr_flags mgr @ walk_struct_flags '''' T" by (rule AddFlags_Inr)
        with Some True se eq Inr show ?thesis
          by (cases "BindPFlags (mgr_viper mgr) fl") (simp_all add: InitFlags_def)
      qed
    qed
  qed
qed

lemma InitFlags_panic_only:
  "InitFlags BindPFlags mgr cfg = Inl p \<Longrightarrow> \<exists>m. p = Panic m"
proof (cases cfg)
  case None
  assume "InitFlags BindPFlags mgr cfg = Inl p"
  with None show ?thesis by (auto simp: InitFlags_def)
next
  case (Some T)
  assume a: "InitFlags BindPFlags mgr cfg = Inl p"
  show ?thesis
  proof (cases "Kind_of T = Struct")
    case False
    with Some a show ?thesis by (auto simp: InitFlags_def)
  next
    case True
    show ?thesis
    proof (cases "parseStructToFlags '''' T (mgr_flags mgr)")
      case (Inl p')
      with walk_result(3) [OF True] have "\<exists>m. p' = Panic m" by blast
      with Some True Inl a show ?thesis by (auto simp: InitFlags_def)
    next
      case (Inr fl)
      with Some True a show ?thesis
        by (cases "BindPFlags (mgr_viper mgr) fl") (auto simp: InitFlags_def)
    qed
  qed
qed

lemma InitFlags_returns_nil:
  "InitFlags BindPFlags mgr cfg = Inr (r, m) \<Longrightarrow> r = None"
  by (auto simp: InitFlags_def split: option.splits if_splits sum.splits)

lemma ReadFromFile_returns_error:
  "fst (GetString fs ''config'') = path \<Longrightarrow> path \<noteq> '''' \<Longrightarrow> readConfig path = Inl e \<Longrightarrow>
   ReadFromFile readConfig mgr fs = (Some e, mgr\<lparr>mgr_viper := SetConfigFile (mgr_viper mgr) path\<rparr>)"
  by (simp add: ReadFromFile_def MergeInConfig_def SetConfigFile_def Let_def)

lemma ReadFromFile_merges:
  "fst (GetString fs ''config'') = path \<Longrightarrow> path \<noteq> '''' \<Longrightarrow> readConfig path = Inr contents \<Longrightarrow>
   ReadFromFile readConfig mgr fs =
     (None, mgr\<lparr>mgr_viper := (mgr_viper mgr)\<lparr>configPath := path,
                                 fileLayer := fileLayer (mgr_viper mgr) ++ contents\<rparr>\<rparr>)"
  by (simp add: ReadFromFile_def MergeInConfig_def SetConfigFile_def Let_def)

lemma ReadFromFile_empty:
  "fst (GetString fs ''config'') = '''' \<Longrightarrow> ReadFromFile readConfig mgr fs = (None, mgr)"
  by (simp add: ReadFromFile_def Let_def)

lemma Unmarshal_returns_NewDecoder_error:
  "NewDecoder \<lparr>TagName = ''name'', Result = target, DecodeHook = stringSliceToStringMapHookFunc\<rparr> = Inl err \<Longrightarrow>
   Unmarshal NewDecoder Decode mgr env target = (Some err, target)"
  by (simp add: Unmarshal_def)

lemma Unmarshal_drops_Decode_error:
  "NewDecoder \<lparr>TagName = ''name'', Result = target, DecodeHook = stringSliceToStringMapHookFunc\<rparr> = Inr decoder \<Longrightarrow>
   fst (Unmarshal NewDecoder Decode mgr env target) = None"
  by (simp add: Unmarshal_def Let_def)

lemma AddConfigFlag_empty:
  "AddConfigFlag [] =
     Inr [\<lparr>Name = ''config'', Shorthand = ''c'', Value = StringValue ''./config.yml'',
           Usage = ''config file (Default; config.yml in the current directory)''\<rparr>]"
  by (simp add: AddConfigFlag_def StringP_def AddFlag_def)

text \<open>
  Claim C7, as stated, allows an abort in two cases only: the description is not a
  struct, or a named field has a kind that is not supported. Registration also aborts
  when \<open>pflag\<close> refuses a flag. Here the description is a struct and every field is of a
  supported kind, binding the flags succeeds, and \<open>InitFlags\<close> panics: in the first
  struct two fields have the name \<open>x\<close>, in the second a field has the shorthand
  \<open>ab\<close>.
\<close>

theorem pflag_refusal_aborts_counterexample:
  "Kind_of (StructT [StructField ''A'' [(''name'', ''x'')] StringT,
                     StructField ''B'' [(''name'', ''x'')] StringT]) = Struct
   \<and> \<not> schema_error (StructT [StructField ''A'' [(''name'', ''x'')] StringT,
                                StructField ''B'' [(''name'', ''x'')] StringT])
   \<and> InitFlags (\<lambda>v fl. Inr v) (New ''app'')
        (Some (StructT [StructField ''A'' [(''name'', ''x'')] StringT,
                        StructField ''B'' [(''name'', ''x'')] StringT]))
      = Inl (Panic ''flag redefined: x'')
   \<and> \<not> schema_error (StructT [StructField ''Debug'' [(''name'', ''debug''), (''short'', ''ab'')] BoolT])
   \<and> InitFlags (\<lambda>v fl. Inr v) (New ''app'')
        (Some (StructT [StructField ''Debug'' [(''name'', ''debug''), (''short'', ''ab'')] BoolT]))
      = Inl (Panic ''ab shorthand is more than one ASCII character'')"
  by (simp add: InitFlags_def Get_def New_def NewFlagSet_def StringP_def BoolP_def AddFlag_def)

text \<open>
  Claim C7, amended. \<open>InitFlags\<close> aborts exactly when the description is nil or not a
  struct, or some named field, at any depth, has a kind that is not supported, or
  \<open>pflag\<close> refuses one of the flags of the walk (its name is already defined, or its
  shorthand has more than one character or is already in use), or binding the
  registered flags to \<open>viper\<close> reports an error; every such abort is a panic, and when
  \<open>InitFlags\<close> returns, it returns a nil error. A failure to read or parse the
  configuration file is the error \<open>ReadFromFile\<close> returns, and a failure to build the
  decoder is the error \<open>Unmarshal\<close> returns.
\<close>

theorem abort_cases:
  "((\<exists>p. InitFlags BindPFlags mgr cfg = Inl p) \<longleftrightarrow>
     (cfg = None \<or> (\<exists>T. cfg = Some T \<and> (Kind_of T \<noteq> Struct \<or> schema_error T
          \<or> isl (AddFlags (mgr_flags mgr) (walk_struct_flags '''' T))
          \<or> isl (BindPFlags (mgr_viper mgr) (mgr_flags mgr @ walk_struct_flags '''' T))))))
   \<and> (\<forall>p. InitFlags BindPFlags mgr cfg = Inl p \<longrightarrow> (\<exists>m. p = Panic m))
   \<and> (\<forall>r m. InitFlags BindPFlags mgr cfg = Inr (r, m) \<longrightarrow> r = None)
   \<and> (\<forall>e. fst (GetString fs ''config'') \<noteq> '''' \<and> readConfig (fst (GetString fs ''config'')) = Inl e \<longrightarrow>
         fst (ReadFromFile readConfig mgr fs) = Some e)
   \<and> (\<forall>err. NewDecoder \<lparr>TagName = ''name'', Result = target, DecodeHook = stringSliceToStringMapHookFunc\<rparr> = Inl err \<longrightarrow>
         fst (Unmarshal NewDecoder Decode mgr env target) = Some err)"
proof (intro conjI allI impI)
  show "(\<exists>p. InitFlags BindPFlags mgr cfg = Inl p) \<longleftrightarrow>
     (cfg = None \<or> (\<exists>T. cfg = Some T \<and> (Kind_of T \<noteq> Struct \<or> schema_error T
          \<or> isl (AddFlags (mgr_flags mgr) (walk_struct_flags '''' T))
          \<or> isl (BindPFlags (mgr_viper mgr) (mgr_flags mgr @ walk_struct_flags '''' T)))))"
    by (rule InitFlags_panics_iff)
next
  fix p assume "InitFlags BindPFlags mgr cfg = Inl p"
  then show "\<exists>m. p = Panic m" by (rule InitFlags_panic_only)
next
  fix r m assume "InitFlags BindPFlags mgr cfg = Inr (r, m)"
  then show "r = None" by (rule InitFlags_returns_nil)
next
  fix e assume "fst (GetString fs ''config'') \<noteq> '''' \<and> readConfig (fst (GetString fs ''config'')) = Inl e"
  then show "fst (ReadFromFile readConfig mgr fs) = Some e"
    using ReadFromFile_returns_error [of fs "fst (GetString fs ''config'')" readConfig e mgr] by simp
next
  fix err
  assume "NewDecoder \<lparr>TagName = ''name'', Result = target, DecodeHook = stringSliceToStringMapHookFunc\<rparr> = Inl err"
  then show "fst (Unmarshal NewDecoder Decode mgr env target) = Some err"
    by (simp add: Unmarshal_returns_NewDecoder_error)
qed

text \<open>
  Instances: a struct with one boolean field, whose flag \<open>pflag\<close> takes, returns nil; a
  struct with a named channel field, a pointer to a struct, and a struct with the same
  shorthand on two fields abort; a missing file and a rejected decoder configuration are
  returned as errors.
\<close>

theorem abort_cases_witness:
  "(\<exists>m. InitFlags (\<lambda>v fl. Inr v) (New ''app'')
           (Some (StructT [StructField ''Debug'' [(''name'', ''debug'')] BoolT])) = Inr (None, m))
   \<and> (\<exists>p. InitFlags (\<lambda>v fl. Inr v) (New ''app'')
           (Some (StructT [StructField ''Done'' [(''name'', ''done'')] (ChanT BoolT)])) = Inl p)
   \<and> (\<exists>p. InitFlags (\<lambda>v fl. Inr v) (New ''app'') (Some (PointerT (StructT []))) = Inl p)
   \<and> (\<exists>p. InitFlags (\<lambda>v fl. Inr v) (New ''app'')
           (Some (StructT [StructField ''Debug'' [(''name'', ''debug''), (''short'', ''d'')] BoolT,
                           StructField ''Dir'' [(''name'', ''dir''), (''short'', ''d'')] StringT])) = Inl p)
   \<and> fst (ReadFromFile (\<lambda>path. Inl (Error (''open '' @ path @ '': no such file or directory'')))
           (New ''app'')
           [\<lparr>Name = ''config'', Shorthand = ''c'', Value = StringValue ''./config.yml'',
             Usage = ''config file (Default; config.yml in the current directory)''\<rparr>])
       = Some (Error ''open ./config.yml: no such file or directory'')
   \<and> fst (Unmarshal (\<lambda>c. Inl (Error ''result must be a pointer'') :: failure + unit)
           (\<lambda>d s. (None, ())) (New ''app'') Map.empty ())
       = Some (Error ''result must be a pointer'')"
proof -
  let ?B = "\<lambda>(v :: Viper) (fl :: FlagSet). (Inr v :: failure + Viper)"
  let ?chan = "StructT [StructField ''Done'' [(''name'', ''done'')] (ChanT BoolT)]"
  let ?ok = "StructT [StructField ''Debug'' [(''name'', ''debug'')] BoolT]"
  let ?ptr = "PointerT (StructT [])"
  let ?dup = "StructT [StructField ''Debug'' [(''name'', ''debug''), (''short'', ''d'')] BoolT,
                       StructField ''Dir'' [(''name'', ''dir''), (''short'', ''d'')] StringT]"
  let ?cfs = "[\<lparr>Name = ''config'', Shorthand = ''c'', Value = StringValue ''./config.yml'',
             Usage = ''config file (Default; config.yml in the current directory)''\<rparr>]"
  let ?read = "\<lambda>path. (Inl (Error (''open '' @ path @ '': no such file or directory'')) :: failure + (string \<rightharpoonup> Value))"
  let ?N = "\<lambda>c :: unit DecoderConfig. (Inl (Error ''result must be a pointer'') :: failure + unit)"
  let ?D = "\<lambda>(d :: unit) (s :: string \<rightharpoonup> Value). (None :: failure option, ())"
  have fl0: "mgr_flags (New ''app'') = []"
    by (simp add: New_def NewFlagSet_def Let_def)
  note T = abort_cases [where BindPFlags = ?B and mgr = "New ''app''" and cfg = "Some ?ok" and fs = ?cfs
      and readConfig = ?read and NewDecoder = ?N and target = "()" and Decode = ?D and env = Map.empty]
  have ok: "\<not> (Some ?ok = None \<or> (\<exists>T. Some ?ok = Some T \<and> (Kind_of T \<noteq> Struct \<or> schema_error T
          \<or> isl (AddFlags (mgr_flags (New ''app'')) (walk_struct_flags '''' T))
          \<or> isl (?B (mgr_viper (New ''app'')) (mgr_flags (New ''app'') @ walk_struct_flags '''' T)))))"
    by (simp add: fl0 Get_def AddFlag_def)
  have chan: "Some ?chan = None \<or> (\<exists>T. Some ?chan = Some T \<and> (Kind_of T \<noteq> Struct \<or> schema_error T
          \<or> isl (AddFlags (mgr_flags (New ''app'')) (walk_struct_flags '''' T))
          \<or> isl (?B (mgr_viper (New ''app'')) (mgr_flags (New ''app'') @ walk_struct_flags '''' T))))"
    by (simp add: Get_def)
  have ptr: "Some ?ptr = None \<or> (\<exists>T. Some ?ptr = Some T \<and> (Kind_of T \<noteq> Struct \<or> schema_error T
          \<or> isl (AddFlags (mgr_flags (New ''app'')) (walk_struct_flags '''' T))
          \<or> isl (?B (mgr_viper (New ''app'')) (mgr_flags (New ''app'') @ walk_struct_flags '''' T))))"
    by simp
  have dup: "Some ?dup = None \<or> (\<exists>T. Some ?dup = Some T \<and> (Kind_of T \<noteq> Struct \<or> schema_error T
          \<or> isl (AddFlags (mgr_flags (New ''app'')) (walk_struct_flags '''' T))
          \<or> isl (?B (mgr_viper (New ''app'')) (mgr_flags (New ''app'') @ walk_struct_flags '''' T))))"
    by (simp add: fl0 Get_def AddFlag_def)
  note Iok = abort_cases [where BindPFlags = ?B and mgr = "New ''app''" and cfg = "Some ?ok", THEN conjunct1]
  note Ichan = abort_cases [where BindPFlags = ?B and mgr = "New ''app''" and cfg = "Some ?chan", THEN conjunct1]
  note Iptr = abort_cases [where BindPFlags = ?B and mgr = "New ''app''" and cfg = "Some ?ptr", THEN conjunct1]
  note Idup = abort_cases [where BindPFlags = ?B and mgr = "New ''app''" and cfg = "Some ?dup", THEN conjunct1]
  note T3 = T [THEN conjunct2, THEN conjunct2, THEN conjunct1, rule_format]
  note T4 = T [THEN conjunct2, THEN conjunct2, THEN conjunct2, THEN conjunct1, rule_format]
  note T5 = T [THEN conjunct2, THEN conjunct2, THEN conjunct2, THEN conjunct2, rule_format]
  from ok have "\<not> (\<exists>p. InitFlags ?B (New ''app'') (Some ?ok) = Inl p)"
    unfolding Iok .
  then obtain r m where rm: "InitFlags ?B (New ''app'') (Some ?ok) = Inr (r, m)"
    by (cases "InitFlags ?B (New ''app'') (Some ?ok)") auto
  from T3 [OF rm] rm have 1: "\<exists>m. InitFlags ?B (New ''app'') (Some ?ok) = Inr (None, m)" by blast
  from chan have 2: "\<exists>p. InitFlags ?B (New ''app'') (Some ?chan) = Inl p"
    unfolding Ichan .
  from ptr have 3: "\<exists>p. InitFlags ?B (New ''app'') (Some ?ptr) = Inl p"
    unfolding Iptr .
  from dup have 4: "\<exists>p. InitFlags ?B (New ''app'') (Some ?dup) = Inl p"
    unfolding Idup .
  have g: "fst (GetString ?cfs ''config'') = ''./config.yml''"
    by (simp add: GetString_def)
  then have "fst (GetString ?cfs ''config'') \<noteq> ''''
      \<and> ?read (fst (GetString ?cfs ''config'')) = Inl (Error ''open ./config.yml: no such file or directory'')"
    by simp
  then have 5: "fst (ReadFromFile ?read (New ''app'') ?cfs)
       = Some (Error ''open ./config.yml: no such file or directory'')"
    by (rule T4)
  have "?N \<lparr>TagName = ''name'', Result = (), DecodeHook = stringSliceToStringMapHookFunc\<rparr>
          = Inl (Error ''result must be a pointer'')"
    by simp
  then have 6: "fst (Unmarshal ?N ?D (New ''app'') Map.empty ()) = Some (Error ''result must be a pointer'')"
    by (rule T5)
  from 1 2 3 4 5 6 show ?thesis by (intro conjI)
qed

subsection \<open>Reading the configuration file\<close>

text \<open>
  Claim C9. \<open>ReadFromFile\<close> returns nil and leaves the manager, and so the merged
  settings, unchanged when the value of the \<open>config\<close> flag is the empty string. When it
  is not empty, a failure to read or parse the file is returned as the error, with the
  merged settings unchanged; otherwise the result is nil and a key then resolves from the
  flag, else from the environment, else from the contents of the file, else as before.
\<close>

theorem read_from_file:
  "(fst (GetString fs ''config'') = '''' \<longrightarrow> ReadFromFile readConfig mgr fs = (None, mgr))
   \<and> (fst (GetString fs ''config'') \<noteq> '''' \<and> readConfig (fst (GetString fs ''config'')) = Inl e \<longrightarrow>
        fst (ReadFromFile readConfig mgr fs) = Some e
        \<and> AllSettings (mgr_viper (snd (ReadFromFile readConfig mgr fs))) env = AllSettings (mgr_viper mgr) env)
   \<and> (fst (GetString fs ''config'') \<noteq> '''' \<and> readConfig (fst (GetString fs ''config'')) = Inr contents \<longrightarrow>
        fst (ReadFromFile readConfig mgr fs) = None
        \<and> (\<forall>key. AllSettings (mgr_viper (snd (ReadFromFile readConfig mgr fs))) env key =
              (case flagLayer (mgr_viper mgr) key of
                 Some x \<Rightarrow> Some x
               | None \<Rightarrow>
                  (case (if automaticEnv (mgr_viper mgr) then env (envKey (mgr_viper mgr) key) else None) of
                     Some s \<Rightarrow> Some (VString s)
                   | None \<Rightarrow>
                      (case contents key of
                         Some x \<Rightarrow> Some x
                       | None \<Rightarrow>
                          (case fileLayer (mgr_viper mgr) key of
                             Some x \<Rightarrow> Some x
                           | None \<Rightarrow> defaultLayer (mgr_viper mgr) key))))))"
proof (intro conjI impI)
  assume "fst (GetString fs ''config'') = ''''"
  then show "ReadFromFile readConfig mgr fs = (None, mgr)" by (rule ReadFromFile_empty)
next
  assume h: "fst (GetString fs ''config'') \<noteq> '''' \<and> readConfig (fst (GetString fs ''config'')) = Inl e"
  then have r: "ReadFromFile readConfig mgr fs
      = (Some e, mgr\<lparr>mgr_viper := SetConfigFile (mgr_viper mgr) (fst (GetString fs ''config''))\<rparr>)"
    using ReadFromFile_returns_error [of fs "fst (GetString fs ''config'')" readConfig e mgr] by simp
  show "fst (ReadFromFile readConfig mgr fs) = Some e" by (simp add: r)
  show "AllSettings (mgr_viper (snd (ReadFromFile readConfig mgr fs))) env = AllSettings (mgr_viper mgr) env"
    by (simp add: r AllSettings_def SetConfigFile_def envKey_def cong: if_cong option.case_cong)
next
  assume h: "fst (GetString fs ''config'') \<noteq> '''' \<and> readConfig (fst (GetString fs ''config'')) = Inr contents"
  then have r: "ReadFromFile readConfig mgr fs
      = (None, mgr\<lparr>mgr_viper := (mgr_viper mgr)\<lparr>configPath := fst (GetString fs ''config''),
                                 fileLayer := fileLayer (mgr_viper mgr) ++ contents\<rparr>\<rparr>)"
    using ReadFromFile_merges [of fs "fst (GetString fs ''config'')" readConfig contents mgr] by simp
  show "fst (ReadFromFile readConfig mgr fs) = None" by (simp add: r)
  show "\<forall>key. AllSettings (mgr_viper (snd (ReadFromFile readConfig mgr fs))) env key =
              (case flagLayer (mgr_viper mgr) key of
                 Some x \<Rightarrow> Some x
               | None \<Rightarrow>
                  (case (if automaticEnv (mgr_viper mgr) then env (envKey (mgr_viper mgr) key) else None) of
                     Some s \<Rightarrow> Some (VString s)
                   | None \<Rightarrow>
                      (case contents key of
                         Some x \<Rightarrow> Some x
                       | None \<Rightarrow>
                          (case fileLayer (mgr_viper mgr) key of
                             Some x \<Rightarrow> Some x
                           | None \<Rightarrow> defaultLayer (mgr_viper mgr) key))))"
    by (simp add: r AllSettings_def envKey_def map_add_def cong: if_cong option.case_cong split: option.splits)
qed

text \<open>
  Instances: a flag set without a \<open>config\<close> flag; then, on the flag set that
  \<open>AddConfigFlag\<close> makes of the empty one, the default path with no file there;
  and a file that sets \<open>server.port\<close> to 7000, read with an empty environment, with
  \<open>APP_SERVER_PORT\<close> set to 8000, and with the flag given as 9000 besides.
\<close>

theorem read_from_file_witness:
  "AddConfigFlag [] = Inr [\<lparr>Name = ''config'', Shorthand = ''c'', Value = StringValue ''./config.yml'',
             Usage = ''config file (Default; config.yml in the current directory)''\<rparr>]
   \<and> ReadFromFile (\<lambda>path. Inr [''server.port'' \<mapsto> VInt 7000]) (New ''APP'') [] = (None, New ''APP'')
   \<and> fst (ReadFromFile (\<lambda>path. Inl (Error (''open '' @ path @ '': no such file or directory'')))
           (New ''APP'')
           [\<lparr>Name = ''config'', Shorthand = ''c'', Value = StringValue ''./config.yml'',
             Usage = ''config file (Default; config.yml in the current directory)''\<rparr>])
       = Some (Error ''open ./config.yml: no such file or directory'')
   \<and> fst (ReadFromFile (\<lambda>path. if path = ''./config.yml'' then Inr [''server.port'' \<mapsto> VInt 7000]
                                 else Inl (Error ''no such file''))
           (New ''APP'')
           [\<lparr>Name = ''config'', Shorthand = ''c'', Value = StringValue ''./config.yml'',
             Usage = ''config file (Default; config.yml in the current directory)''\<rparr>]) = None
   \<and> AllSettings (mgr_viper (snd (ReadFromFile
           (\<lambda>path. if path = ''./config.yml'' then Inr [''server.port'' \<mapsto> VInt 7000]
                    else Inl (Error ''no such file''))
           (New ''APP'')
           [\<lparr>Name = ''config'', Shorthand = ''c'', Value = StringValue ''./config.yml'',
             Usage = ''config file (Default; config.yml in the current directory)''\<rparr>])))
         Map.empty ''server.port'' = Some (VInt 7000)
   \<and> AllSettings (mgr_viper (snd (ReadFromFile
           (\<lambda>path. if path = ''./config.yml'' then Inr [''server.port'' \<mapsto> VInt 7000]
                    else Inl (Error ''no such file''))
           (New ''APP'')
           [\<lparr>Name = ''config'', Shorthand = ''c'', Value = StringValue ''./config.yml'',
             Usage = ''config file (Default; config.yml in the current directory)''\<rparr>])))
         [''APP_SERVER_PORT'' \<mapsto> ''8000''] ''server.port'' = Some (VString ''8000'')
   \<and> AllSettings (mgr_viper (snd (ReadFromFile
           (\<lambda>path. if path = ''./config.yml'' then Inr [''server.port'' \<mapsto> VInt 7000]
                    else Inl (Error ''no such file''))
           ((New ''APP'')\<lparr>mgr_viper := (mgr_viper (New ''APP''))\<lparr>flagLayer := [''server.port'' \<mapsto> VInt 9000]\<rparr>\<rparr>)
           [\<lparr>Name = ''config'', Shorthand = ''c'', Value = StringValue ''./config.yml'',
             Usage = ''config file (Default; config.yml in the current directory)''\<rparr>])))
         [''APP_SERVER_PORT'' \<mapsto> ''8000''] ''server.port'' = Some (VInt 9000)"
proof -
  let ?cfs = "[\<lparr>Name = ''config'', Shorthand = ''c'', Value = StringValue ''./config.yml'',
             Usage = ''config file (Default; config.yml in the current directory)''\<rparr>]"
  let ?ok = "\<lambda>path :: string. (Inr [''server.port'' \<mapsto> VInt 7000] :: failure + (string \<rightharpoonup> Value))"
  let ?bad = "\<lambda>path. (Inl (Error (''open '' @ path @ '': no such file or directory'')) :: failure + (string \<rightharpoonup> Value))"
  let ?file = "\<lambda>path. if path = ''./config.yml'' then Inr [''server.port'' \<mapsto> VInt 7000]
                                 else (Inl (Error ''no such file'') :: failure + (string \<rightharpoonup> Value))"
  let ?env = "[''APP_SERVER_PORT'' \<mapsto> ''8000''] :: string \<rightharpoonup> string"
  have g0: "fst (GetString [] ''config'') = ''''"
    by (simp add: GetString_def)
  have g: "fst (GetString ?cfs ''config'') = ''./config.yml''"
    by (simp add: GetString_def)
  have hb: "fst (GetString ?cfs ''config'') \<noteq> ''''
      \<and> ?bad (fst (GetString ?cfs ''config'')) = Inl (Error ''open ./config.yml: no such file or directory'')"
    by (simp add: g)
  have hf: "fst (GetString ?cfs ''config'') \<noteq> ''''
      \<and> ?file (fst (GetString ?cfs ''config'')) = Inr [''server.port'' \<mapsto> VInt 7000]"
    by (simp add: g)
  note A = read_from_file [where fs = "[]" and readConfig = ?ok and mgr = "New ''APP''",
      THEN conjunct1, rule_format, OF g0]
  note B = read_from_file [where fs = ?cfs and readConfig = ?bad and mgr = "New ''APP''"
        and env = Map.empty,
      THEN conjunct2, THEN conjunct1, rule_format, OF hb, THEN conjunct1]
  note C = read_from_file [where fs = ?cfs and readConfig = ?file and mgr = "New ''APP''"
        and env = Map.empty,
      THEN conjunct2, THEN conjunct2, rule_format, OF hf]
  note D = read_from_file [where fs = ?cfs and readConfig = ?file and mgr = "New ''APP''"
        and env = ?env,
      THEN conjunct2, THEN conjunct2, rule_format, OF hf]
  have v: "flagLayer (mgr_viper (New ''APP'')) = Map.empty" "fileLayer (mgr_viper (New ''APP'')) = Map.empty"
    "automaticEnv (mgr_viper (New ''APP''))"
    "envKey (mgr_viper (New ''APP'')) ''server.port'' = ''APP_SERVER_PORT''"
    by (simp_all add: New_def Let_def viper_New_def SetEnvKeyReplacer_def NewReplacer_def
        AllowEmptyEnv_def SetEnvPrefix_def SetConfigName_def AutomaticEnv_def envKey_def
        Replace_def ToUpper_def)
  have 4: "AllSettings (mgr_viper (snd (ReadFromFile ?file (New ''APP'') ?cfs)))
         Map.empty ''server.port'' = Some (VInt 7000)"
    unfolding C [THEN conjunct2, rule_format] by (simp add: v)
  have 5: "AllSettings (mgr_viper (snd (ReadFromFile ?file (New ''APP'') ?cfs)))
         ?env ''server.port'' = Some (VString ''8000'')"
    unfolding D [THEN conjunct2, rule_format] by (simp add: v)
  let ?flagged = "(New ''APP'')\<lparr>mgr_viper := (mgr_viper (New ''APP''))\<lparr>flagLayer := [''server.port'' \<mapsto> VInt 9000]\<rparr>\<rparr>"
  note E = read_from_file [where fs = ?cfs and readConfig = ?file and mgr = ?flagged
        and env = ?env,
      THEN conjunct2, THEN conjunct2, rule_format, OF hf]
  have 6: "AllSettings (mgr_viper (snd (ReadFromFile ?file ?flagged ?cfs)))
         ?env ''server.port'' = Some (VInt 9000)"
    unfolding E [THEN conjunct2, rule_format] by simp
  from AddConfigFlag_empty A B C [THEN conjunct1] 4 5 6 show ?thesis by (intro conjI)
qed

subsection \<open>Decoding\<close>

text \<open>
  Claim C1 asks that \<open>Unmarshal\<close> return a non-nil error whenever decoding fails.
  \<open>Unmarshal\<close> calls \<open>Decode\<close> and drops its result. Here the decoder is one for a
  target that is a single map of strings under the key \<open>labels\<close>: on the settings
  \<open>labels = ["bad"]\<close> the hook fails, \<open>Decode\<close> reports the hook's error, and
  \<open>Unmarshal\<close> returns nil.
\<close>

theorem unmarshal_drops_decode_error:
  "fst ((\<lambda>decoder settings.
           case settings ''labels'' of
             None \<Rightarrow> (None, Result decoder)
           | Some data \<Rightarrow>
              (case DecodeHook decoder (SliceT StringT) (MapT StringT StringT) data of
                 Inl err \<Rightarrow> (Some err, Result decoder)
               | Inr v \<Rightarrow> (None, v)))
         \<lparr>TagName = ''name'', Result = VNil, DecodeHook = stringSliceToStringMapHookFunc\<rparr>
         (AllSettings (viper_New\<lparr>flagLayer := [''labels'' \<mapsto> VStringSlice [''bad'']]\<rparr>) Map.empty))
     = Some (Error ''Invalid format for input bad'')
   \<and> fst (Unmarshal Inr
         (\<lambda>decoder settings.
           case settings ''labels'' of
             None \<Rightarrow> (None, Result decoder)
           | Some data \<Rightarrow>
              (case DecodeHook decoder (SliceT StringT) (MapT StringT StringT) data of
                 Inl err \<Rightarrow> (Some err, Result decoder)
               | Inr v \<Rightarrow> (None, v)))
         \<lparr>mgr_name = ''app'', mgr_flags = [],
           mgr_viper = viper_New\<lparr>flagLayer := [''labels'' \<mapsto> VStringSlice [''bad'']]\<rparr>\<rparr>
         Map.empty VNil)
     = None"
  by (simp add: Unmarshal_def AllSettings_def viper_New_def stringSliceToStringMapHookFunc_def
        numeral_2_eq_2)

subsection \<open>Environment variables\<close>

lemma ToUpper_append: "ToUpper (a @ b) = ToUpper a @ ToUpper b"
  by (simp add: ToUpper_def)

lemma envKeyReplacer_New:
  "envKeyReplacer (mgr_viper (New name)) = [(CHR ''.'', CHR ''_''), (CHR ''-'', CHR ''_'')]"
  "envPrefix (mgr_viper (New name)) = name"
  "automaticEnv (mgr_viper (New name))"
  by (simp_all add: New_def Let_def viper_New_def SetEnvKeyReplacer_def NewReplacer_def
        AllowEmptyEnv_def SetEnvPrefix_def SetConfigName_def AutomaticEnv_def)

text \<open>
  Claim C8. With the replacer and the prefix that \<open>New\<close> installs, the environment
  variable of a dotted flag name is the manager's name, then \<open>_\<close>, then the flag name with
  every \<open>.\<close> and every \<open>-\<close> replaced by \<open>_\<close>, all in upper case; the name
  \<open>server.max-conns\<close> of the manager \<open>APP\<close> resolves from \<open>APP_SERVER_MAX_CONNS\<close>.
\<close>

theorem env_key_of_flag_name:
  "envKey (mgr_viper (New name)) key
     = ToUpper (name @ ''_'' @ map (\<lambda>c. if c = CHR ''.'' \<or> c = CHR ''-'' then CHR ''_'' else c) key)
   \<and> envKey (mgr_viper (New ''APP'')) ''server.max-conns'' = ''APP_SERVER_MAX_CONNS''"
proof -
  have "Replace [(CHR ''.'', CHR ''_''), (CHR ''-'', CHR ''_'')] key
          = map (\<lambda>c. if c = CHR ''.'' \<or> c = CHR ''-'' then CHR ''_'' else c) key"
    by (simp add: Replace_def)
  then have 1: "envKey (mgr_viper (New name)) key
     = ToUpper (name @ ''_'' @ map (\<lambda>c. if c = CHR ''.'' \<or> c = CHR ''-'' then CHR ''_'' else c) key)"
    by (simp add: envKey_def envKeyReplacer_New)
  have 2: "envKey (mgr_viper (New ''APP'')) ''server.max-conns'' = ''APP_SERVER_MAX_CONNS''"
    by (simp add: envKey_def envKeyReplacer_New Replace_def ToUpper_def)
  from 1 2 show ?thesis by simp
qed

text \<open>An instance with a dash in the manager's name, which the replacer does not touch.\<close>

theorem env_key_of_flag_name_witness:
  "envKey (mgr_viper (New ''my-app'')) ''db.pool.max-idle'' = ''MY-APP_DB_POOL_MAX_IDLE''"
  using env_key_of_flag_name [of "''my-app''" "''db.pool.max-idle''"]
  by (simp add: ToUpper_def)

end
